theory Spec2Isabelle
  imports Main
begin

section \<open>Project generation wizard: \<^verbatim>\<open>src/handler/GenerateProjectHandler.ts\<close>\<close>

text \<open>
  The handler is asynchronous glue around the editor's UI, the configuration, the file
  system, a download and an archive extractor. The embedding keeps the control flow of
  every function of the file and makes its surroundings explicit:
  \<^item> an awaited call ends in one of the three states of a promise (\<open>Resolved\<close>,
    \<open>Rejected\<close>, \<open>Pending\<close>);
  \<^item> the answers of the surroundings are the fields of a record \<open>world\<close>; a prompt
    that is shown inside a loop reads its answers from a list, and a prompt whose list
    is used up is never answered (\<open>Pending\<close>);
  \<^item> every call that leaves the file is written to a trace, in program order;
  \<^item> the singleton \<open>dependencyManager\<close> is a state that is passed along.
\<close>

subsection \<open>Errors, promises, JavaScript truthiness\<close>

datatype error =
    OperationCanceledError string  \<comment> \<open>\<^verbatim>\<open>new OperationCanceledError(message)\<close>\<close>
  | TypeError string               \<comment> \<open>reading the named property of \<^verbatim>\<open>undefined\<close>\<close>
  | HostError string               \<comment> \<open>an error raised by a collaborator, kept as it is\<close>

datatype 'a promise = Resolved 'a | Rejected error | Pending

text \<open>A value of type \<^verbatim>\<open>string | undefined\<close> is a \<open>string option\<close>; \<open>None\<close> is
  \<^verbatim>\<open>undefined\<close>. The empty string is the only falsy string.\<close>

definition truthy :: "string option \<Rightarrow> bool" where
  "truthy v = (case v of None \<Rightarrow> False | Some s \<Rightarrow> s \<noteq> [])"

text \<open>\<^verbatim>\<open>a || b\<close>\<close>

definition orElse :: "string option \<Rightarrow> string option \<Rightarrow> string option" where
  "orElse a b = (if truthy a then a else b)"

text \<open>\<^verbatim>\<open>a && f(a)\<close>\<close>

definition andThen :: "string option \<Rightarrow> (string \<Rightarrow> string) \<Rightarrow> string option" where
  "andThen a f = (case a of None \<Rightarrow> None | Some s \<Rightarrow> if s = [] then Some s else Some (f s))"

text \<open>\<^verbatim>\<open>s.startsWith(p)\<close>\<close>

definition startsWith :: "string \<Rightarrow> string \<Rightarrow> bool" where
  "startsWith s p = (take (length p) s = p)"

text \<open>\<^verbatim>\<open>xs.join(sep)\<close>\<close>

fun join :: "string \<Rightarrow> string list \<Rightarrow> string" where
  "join sep [] = []"
| "join sep [x] = x"
| "join sep (x # y # ys) = x @ sep @ join sep (y # ys)"

subsection \<open>Data model\<close>

datatype ProjectType = MavenProject | GradleProject

fun projectTypeString :: "ProjectType \<Rightarrow> string" where
  "projectTypeString MavenProject = ''maven-project''"
| "projectTypeString GradleProject = ''gradle-project''"

text \<open>\<^verbatim>\<open>IDependenciesItem\<close> (declared in \<^verbatim>\<open>DependencyManager\<close>): the handler reads its
  \<^verbatim>\<open>itemType\<close> and its \<^verbatim>\<open>id\<close>.\<close>

record IDependenciesItem =
  itemType :: string
  id' :: string

record Uri =
  fsPath :: string

record WorkspaceFolder =
  uri :: "Uri option"

text \<open>\<^verbatim>\<open>IValue\<close> (declared in \<^verbatim>\<open>model\<close>) and the quick-pick item built from it in
  \<^verbatim>\<open>specifyBootVersion\<close>.\<close>

record IValue =
  value_id :: string
  value_name :: string

record BootVersionItem =
  item_value :: "IValue option"
  item_label :: string

text \<open>\<^verbatim>\<open>WizardParams\<close>: every field is optional.\<close>

record WizardParams =
  default_artifactId :: "string option"
  default_groupId :: "string option"
  default_language :: "string option"
  default_projectType :: "ProjectType option"
  default_packaging :: "string option"
  default_bootVersion :: "string option"
  default_dependencies :: "string list option"
  default_targetFolder :: "string option"

text \<open>The fields of \<^verbatim>\<open>GenerateProjectHandler\<close> that \<^verbatim>\<open>runSteps\<close> assigns and
  \<^verbatim>\<open>downloadUrl\<close> reads.\<close>

record GenerateProjectHandler =
  serviceUrl :: string
  artifactId :: string
  groupId :: string
  language :: string
  projectType :: ProjectType
  packaging :: string
  bootVersion :: string
  dependencies :: IDependenciesItem
  outputUri :: Uri

definition OPEN_IN_NEW_WORKSPACE :: string where
  "OPEN_IN_NEW_WORKSPACE = ''Open''"

definition OPEN_IN_CURRENT_WORKSPACE :: string where
  "OPEN_IN_CURRENT_WORKSPACE = ''Add to Workspace''"

subsection \<open>\<^verbatim>\<open>downloadUrl\<close> (lines 110-122)\<close>

definition downloadUrl_params :: "GenerateProjectHandler \<Rightarrow> string list" where
  "downloadUrl_params this =
     [ ''type='' @ projectTypeString (projectType this),
       ''language='' @ language this,
       ''groupId='' @ groupId this,
       ''artifactId='' @ artifactId this,
       ''packaging='' @ packaging this,
       ''bootVersion='' @ bootVersion this,
       ''baseDir='' @ artifactId this,
       ''dependencies='' @ id' (dependencies this) ]"

definition downloadUrl :: "GenerateProjectHandler \<Rightarrow> string" where
  "downloadUrl this = serviceUrl this @ ''/starter.zip?'' @ join ''&'' (downloadUrl_params this)"

subsection \<open>The surroundings\<close>

text \<open>The calls a step function makes, and the events of a run. A step function can
  only make calls; \<^verbatim>\<open>runSteps\<close> wraps them (\<open>Call\<close>) into its own trace.\<close>

datatype call =
    ShowQuickPick string                 \<comment> \<open>\<^verbatim>\<open>vscode.window.showQuickPick\<close>, by its place holder\<close>
  | GetFromInputBox string "string option" \<comment> \<open>prompt and seed value\<close>
  | GetBootVersions                      \<comment> \<open>\<^verbatim>\<open>manager.getBootVersions()\<close>\<close>
  | SetSelectedIds "string list"         \<comment> \<open>\<^verbatim>\<open>dependencyManager.selectedIds = ...\<close>\<close>
  | GetQuickPickItems string "string list" \<comment> \<open>boot version, and the selection it is derived from\<close>
  | ToggleDependency string              \<comment> \<open>\<^verbatim>\<open>dependencyManager.toggleDependency(id)\<close>\<close>
  | OpenDialogForFolder string           \<comment> \<open>by its open label\<close>
  | PathExists string                    \<comment> \<open>\<^verbatim>\<open>fse.pathExists(path)\<close>\<close>
  | ShowWarningMessage string

datatype event =
    Step string                          \<comment> \<open>\<^verbatim>\<open>instrumentOperationStep(operationId, name, fn)(...)\<close>\<close>
  | Call call
  | NewServiceManager string
  | SendInfo "(string \<times> string) list"
  | Report string                        \<comment> \<open>\<^verbatim>\<open>p.report({ message })\<close>\<close>
  | DownloadFile string
  | ExtractZip string string
  | UpdateLastUsedDependencies IDependenciesItem
  | ShowInformationMessage string "string list"
  | ExecuteCommand string Uri bool
  | UpdateWorkspaceFolders nat Uri

text \<open>What the user picks in the dependency quick pick: one of the toggle-able
  dependency items, the confirm item, some other item of the list (the last used
  selection, asked for with \<^verbatim>\<open>hasLastSelected\<close>), or nothing.\<close>

datatype pick = PickDependency string | PickConfirm | PickOther IDependenciesItem | Dismiss

record world =
  \<comment> \<open>library functions of the platform\<close>
  toLowerCase :: "string \<Rightarrow> string"
  pathJoin :: "string \<Rightarrow> string \<Rightarrow> string"
  uriFile :: "string \<Rightarrow> Uri"
  \<comment> \<open>\<^verbatim>\<open>vscode.workspace\<close>\<close>
  getConfiguration :: "string \<Rightarrow> string option"
  rootPath :: "string option"
  workspaceFolders :: "WorkspaceFolder list option"
  \<comment> \<open>the file system and the network\<close>
  pathExists :: "string \<Rightarrow> bool"
  downloadFile :: "string \<Rightarrow> string promise"
  extractZip :: "string \<Rightarrow> string \<Rightarrow> error option"
  \<comment> \<open>what the prompts resolve to\<close>
  serviceUrlAnswer :: "string option promise"
  languagePick :: "string option promise"
  groupIdInput :: "string option promise"
  artifactIdInput :: "string option promise"
  packagingPick :: "string option promise"
  bootVersionPick :: "BootVersionItem option promise"
  dependencyPicks :: "pick promise list"
  folderDialogs :: "Uri option promise list"
  warningChoices :: "string option promise list"
  openMethodChoice :: "string option promise"

text \<open>The state of the singleton \<^verbatim>\<open>dependencyManager\<close>.\<close>

record DependencyManager =
  selectedIds :: "string list"
  lastUsed :: "IDependenciesItem option"

text \<open>An asynchronous computation: from the manager's state to the calls it made, the
  state of its promise and the manager's state afterwards.\<close>

type_synonym ('e, 'a) io = "DependencyManager \<Rightarrow> 'e list \<times> 'a promise \<times> DependencyManager"

definition resolve :: "'a \<Rightarrow> ('e, 'a) io" where
  "resolve v = (\<lambda>dm. ([], Resolved v, dm))"

definition throw :: "error \<Rightarrow> ('e, 'a) io" where
  "throw e = (\<lambda>dm. ([], Rejected e, dm))"

text \<open>The calls \<open>es\<close> are made, and the last of them ends as \<open>p\<close>.\<close>

definition called :: "'e list \<Rightarrow> 'a promise \<Rightarrow> ('e, 'a) io" where
  "called es p = (\<lambda>dm. (es, p, dm))"

text \<open>\<^verbatim>\<open>const v = await m; f(v)\<close>: a rejection propagates, a pending promise blocks.\<close>

definition await :: "('e, 'a) io \<Rightarrow> ('a \<Rightarrow> ('e, 'b) io) \<Rightarrow> ('e, 'b) io" where
  "await m f = (\<lambda>dm. case m dm of
      (es, Resolved v, dm1) \<Rightarrow> (case f v dm1 of (es2, r, dm2) \<Rightarrow> (es @ es2, r, dm2))
    | (es, Rejected e, dm1) \<Rightarrow> (es, Rejected e, dm1)
    | (es, Pending, dm1) \<Rightarrow> (es, Pending, dm1))"

definition calls :: "(call, 'a) io \<Rightarrow> (event, 'a) io" where
  "calls m = (\<lambda>dm. case m dm of (cs, r, dm1) \<Rightarrow> (map Call cs, r, dm1))"

definition instrumentOperationStep :: "string \<Rightarrow> (event, 'a) io \<Rightarrow> (event, 'a) io" where
  "instrumentOperationStep name m = (\<lambda>dm. case m dm of (es, r, dm1) \<Rightarrow> (Step name # es, r, dm1))"

subsection \<open>The dependency manager\<close>

text \<open>Modelled from the spec: \<^verbatim>\<open>toggleDependency\<close> of \<^verbatim>\<open>DependencyManager\<close>, which is
  not among the sources. The spec: "toggle its membership in the selection set".\<close>

definition toggleDependency :: "string \<Rightarrow> DependencyManager \<Rightarrow> DependencyManager" where
  "toggleDependency i dm =
     dm\<lparr>selectedIds := (if i \<in> set (selectedIds dm) then removeAll i (selectedIds dm)
                        else selectedIds dm @ [i])\<rparr>"

text \<open>Modelled from the spec: the item the quick pick over
  \<^verbatim>\<open>dependencyManager.getQuickPickItems(...)\<close> resolves to. The list mixes "individually
  toggle-able dependency items with one special confirm item", derived from the current
  selection; an item carries "an identifier kind tag" and "an opaque identifier string",
  and the confirm item stands for the selection (the download URL's
  "comma-or-id-joined selection").\<close>

definition pickedItem :: "DependencyManager \<Rightarrow> pick \<Rightarrow> IDependenciesItem option" where
  "pickedItem dm c = (case c of
      Dismiss \<Rightarrow> None
    | PickDependency i \<Rightarrow> Some \<lparr>itemType = ''dependency'', id' = i\<rparr>
    | PickConfirm \<Rightarrow> Some \<lparr>itemType = ''confirm'', id' = join '','' (selectedIds dm)\<rparr>
    | PickOther item \<Rightarrow> Some item)"

text \<open>Modelled from the spec: \<^verbatim>\<open>updateLastUsedDependencies\<close>, "persist the final
  selection as last used".\<close>

definition updateLastUsedDependencies :: "IDependenciesItem \<Rightarrow> (event, unit) io" where
  "updateLastUsedDependencies v =
     (\<lambda>dm. ([UpdateLastUsedDependencies v], Resolved (), dm\<lparr>lastUsed := Some v\<rparr>))"

subsection \<open>The step functions (lines 125-222)\<close>

text \<open>\<^verbatim>\<open>specifyServiceUrl\<close> is imported from \<^verbatim>\<open>./utils\<close>: its result is an answer of
  the surroundings.\<close>

definition specifyServiceUrl :: "world \<Rightarrow> (call, string option) io" where
  "specifyServiceUrl w = called [] (serviceUrlAnswer w)"

definition specifyLanguage :: "world \<Rightarrow> WizardParams \<Rightarrow> (call, string option) io" where
  "specifyLanguage w defaults =
     await
       (let language = orElse (default_language defaults) (getConfiguration w ''defaultLanguage'')
        in if \<not> truthy language
           then called [ShowQuickPick ''Specify project language.''] (languagePick w)
           else resolve language)
       (\<lambda>language. resolve (andThen language (toLowerCase w)))"

definition specifyGroupId :: "world \<Rightarrow> WizardParams \<Rightarrow> (call, string option) io" where
  "specifyGroupId w defaults =
     (let defaultGroupId = orElse (default_groupId defaults) (getConfiguration w ''defaultGroupId'')
      in called [GetFromInputBox ''Input Group Id for your project.'' defaultGroupId]
           (groupIdInput w))"

definition specifyArtifactId :: "world \<Rightarrow> WizardParams \<Rightarrow> (call, string option) io" where
  "specifyArtifactId w defaults =
     (let defaultArtifactId =
            orElse (default_artifactId defaults) (getConfiguration w ''defaultArtifactId'')
      in called [GetFromInputBox ''Input Artifact Id for your project.'' defaultArtifactId]
           (artifactIdInput w))"

definition specifyPackaging :: "world \<Rightarrow> WizardParams \<Rightarrow> (call, string option) io" where
  "specifyPackaging w defaults =
     await
       (let packaging = orElse (default_packaging defaults) (getConfiguration w ''defaultPackaging'')
        in if \<not> truthy packaging
           then called [ShowQuickPick ''Specify packaging type.''] (packagingPick w)
           else resolve packaging)
       (\<lambda>packaging. resolve (andThen packaging (toLowerCase w)))"

definition specifyOpenMethod :: "world \<Rightarrow> bool \<Rightarrow> string \<Rightarrow> (event, string option) io" where
  "specifyOpenMethod w hasOpenFolder projectLocation =
     (let openMethod = getConfiguration w ''defaultOpenProjectMethod''
      in if openMethod \<noteq> Some OPEN_IN_CURRENT_WORKSPACE \<and> openMethod \<noteq> Some OPEN_IN_NEW_WORKSPACE
         then (let candidates =
                     OPEN_IN_NEW_WORKSPACE # (if hasOpenFolder then [OPEN_IN_CURRENT_WORKSPACE] else [])
               in called
                    [ShowInformationMessage
                       (''Successfully generated. Location: '' @ projectLocation) candidates]
                    (openMethodChoice w))
         else resolve openMethod)"

definition specifyBootVersion :: "world \<Rightarrow> (call, string option) io" where
  "specifyBootVersion w =
     await (called [GetBootVersions, ShowQuickPick ''Specify Spring Boot version.'']
              (bootVersionPick w))
       (\<lambda>bootVersion. resolve
          (case bootVersion of
             None \<Rightarrow> None
           | Some b \<Rightarrow> (case item_value b of None \<Rightarrow> None | Some v \<Rightarrow> Some (value_id v))))"

text \<open>The \<^verbatim>\<open>do ... while\<close> loop of \<^verbatim>\<open>specifyDependencies\<close> (lines 190-199); its
  value is \<^verbatim>\<open>current\<close> when the loop is left. \<open>ds\<close> is
  \<^verbatim>\<open>defaults.dependencies || []\<close>, assigned to \<^verbatim>\<open>dependencyManager.selectedIds\<close> at the
  start of every iteration (line 191). Without default dependencies this is a new empty
  array each time. With default dependencies the manager shares the array of the
  defaults; the defaults are read-only (the spec: "never mutated"), so a toggle gives the
  manager a new selection and the next assignment gives it the default one again.\<close>

fun dependenciesLoop :: "string \<Rightarrow> string list \<Rightarrow> pick promise list
    \<Rightarrow> (call, IDependenciesItem option) io" where
  "dependenciesLoop bv ds [] dm =
     (let dm1 = dm\<lparr>selectedIds := ds\<rparr>
      in ([SetSelectedIds ds, GetQuickPickItems bv (selectedIds dm1),
           ShowQuickPick ''Search for dependencies.''], Pending, dm1))"
| "dependenciesLoop bv ds (p # ps) dm =
     (let dm1 = dm\<lparr>selectedIds := ds\<rparr>;
          shown = [SetSelectedIds ds, GetQuickPickItems bv (selectedIds dm1),
                   ShowQuickPick ''Search for dependencies.'']
      in case p of
           Pending \<Rightarrow> (shown, Pending, dm1)
         | Rejected e \<Rightarrow> (shown, Rejected e, dm1)
         | Resolved c \<Rightarrow>
             (case pickedItem dm1 c of
                None \<Rightarrow> (shown, Resolved None, dm1)
              | Some current \<Rightarrow>
                  if itemType current = ''dependency''
                  then (case dependenciesLoop bv ds ps (toggleDependency (id' current) dm1) of
                          (es, r, dm2) \<Rightarrow> (shown @ ToggleDependency (id' current) # es, r, dm2))
                  else (shown, Resolved (Some current), dm1)))"

definition specifyDependencies :: "world \<Rightarrow> string \<Rightarrow> WizardParams
    \<Rightarrow> (call, IDependenciesItem) io" where
  "specifyDependencies w bv defaults =
     await
       (dependenciesLoop bv
          (case default_dependencies defaults of None \<Rightarrow> [] | Some ds \<Rightarrow> ds)
          (dependencyPicks w))
       (\<lambda>current. case current of
            None \<Rightarrow> throw (OperationCanceledError ''Canceled on dependency seletion.'')
          | Some item \<Rightarrow> resolve item)"

definition OPTION_CONTINUE :: string where
  "OPTION_CONTINUE = ''Continue''"

definition OPTION_CHOOSE_ANOTHER_FOLDER :: string where
  "OPTION_CHOOSE_ANOTHER_FOLDER = ''Choose another folder''"

definition LABEL_CHOOSE_FOLDER :: string where
  "LABEL_CHOOSE_FOLDER = ''Generate into this folder''"

definition MESSAGE_EXISTING_FOLDER :: "string \<Rightarrow> string" where
  "MESSAGE_EXISTING_FOLDER projectName =
     ''A folder ['' @ projectName @
     ''] already exists in the selected folder. Continue to overwrite or Choose another folder?''"

text \<open>The \<^verbatim>\<open>while\<close> loop of \<^verbatim>\<open>specifyTargetFolder\<close> (lines 213-220), entered with
  \<^verbatim>\<open>outputUri\<close>; \<open>cs\<close> are the answers to the warnings still to come, \<open>fs\<close> the results
  of the folder dialogs still to come. Its value is \<^verbatim>\<open>outputUri\<close> when the loop is
  left.\<close>

fun targetFolderLoop :: "world \<Rightarrow> string \<Rightarrow> Uri option \<Rightarrow> string option promise list
    \<Rightarrow> Uri option promise list \<Rightarrow> call list \<times> Uri option promise" where
  "targetFolderLoop w projectName None cs fs = ([], Resolved None)"
| "targetFolderLoop w projectName (Some u) cs fs =
     (let p = pathJoin w (fsPath u) projectName;
          warned = [PathExists p, ShowWarningMessage (MESSAGE_EXISTING_FOLDER projectName)]
      in if pathExists w p
         then (case cs of
                 [] \<Rightarrow> (warned, Pending)
               | c # cs' \<Rightarrow>
                   (case c of
                      Pending \<Rightarrow> (warned, Pending)
                    | Rejected e \<Rightarrow> (warned, Rejected e)
                    | Resolved overrideChoice \<Rightarrow>
                        if overrideChoice = Some OPTION_CHOOSE_ANOTHER_FOLDER
                        then (case fs of
                                [] \<Rightarrow> (warned @ [OpenDialogForFolder LABEL_CHOOSE_FOLDER], Pending)
                              | f # fs' \<Rightarrow>
                                  (case f of
                                     Pending \<Rightarrow>
                                       (warned @ [OpenDialogForFolder LABEL_CHOOSE_FOLDER], Pending)
                                   | Rejected e \<Rightarrow>
                                       (warned @ [OpenDialogForFolder LABEL_CHOOSE_FOLDER], Rejected e)
                                   | Resolved u' \<Rightarrow>
                                       (case targetFolderLoop w projectName u' cs' fs' of
                                          (es, r) \<Rightarrow>
                                            (warned @ OpenDialogForFolder LABEL_CHOOSE_FOLDER # es, r))))
                        else (warned, Resolved (Some u))))
         else ([PathExists p], Resolved (Some u)))"

text \<open>\<^verbatim>\<open>await openDialogForFolder({ openLabel: LABEL_CHOOSE_FOLDER })\<close>, reading the
  first of the dialog results still to come.\<close>

definition openDialogForFolder :: "Uri option promise list
    \<Rightarrow> (call, Uri option \<times> Uri option promise list) io" where
  "openDialogForFolder fs =
     (case fs of
        [] \<Rightarrow> called [OpenDialogForFolder LABEL_CHOOSE_FOLDER] Pending
      | f # fs' \<Rightarrow> await (called [OpenDialogForFolder LABEL_CHOOSE_FOLDER] f)
                     (\<lambda>outputUri. resolve (outputUri, fs')))"

definition specifyTargetFolder :: "world \<Rightarrow> WizardParams \<Rightarrow> string \<Rightarrow> (call, Uri option) io" where
  "specifyTargetFolder w defaults projectName =
     await
       (case default_targetFolder defaults of
          None \<Rightarrow> openDialogForFolder (folderDialogs w)
        | Some t \<Rightarrow> if t = [] then openDialogForFolder (folderDialogs w)
                    else resolve (Some (uriFile w t), folderDialogs w))
       (\<lambda>(outputUri, fs).
          case targetFolderLoop w projectName outputUri (warningChoices w) fs of
            (es, r) \<Rightarrow> called es r)"

subsection \<open>\<^verbatim>\<open>downloadAndUnzip\<close> (lines 224-244)\<close>

definition downloadAndUnzip :: "world \<Rightarrow> string \<Rightarrow> string \<Rightarrow> (event, unit) io" where
  "downloadAndUnzip w targetUrl targetFolder =
     await (called [Report ''Downloading zip package...'', DownloadFile targetUrl]
              (downloadFile w targetUrl))
       (\<lambda>filepath.
          await (called [Report ''Starting to unzip...'', ExtractZip filepath targetFolder]
                   (Resolved (extractZip w filepath targetFolder)))
            (\<lambda>err. case err of Some e \<Rightarrow> throw e | None \<Rightarrow> resolve ()))"

subsection \<open>\<^verbatim>\<open>runSteps\<close> (lines 55-108)\<close>

text \<open>Lines 57-89: the eight steps, in order. The value is the handler with all its
  fields assigned.\<close>

definition runSteps_answers :: "world \<Rightarrow> ProjectType \<Rightarrow> WizardParams
    \<Rightarrow> (event, GenerateProjectHandler) io" where
  "runSteps_answers w pt defaults =
     await (instrumentOperationStep ''serviceUrl'' (calls (specifyServiceUrl w)))
     (\<lambda>r. case r of
        None \<Rightarrow> throw (OperationCanceledError ''Service URL not specified.'')
      | Some this_serviceUrl \<Rightarrow>
     await (called [NewServiceManager this_serviceUrl] (Resolved ()))
     (\<lambda>_.
     await (instrumentOperationStep ''Language'' (calls (specifyLanguage w defaults)))
     (\<lambda>r. case r of
        None \<Rightarrow> throw (OperationCanceledError ''Language not specified.'')
      | Some this_language \<Rightarrow>
     await (instrumentOperationStep ''GroupId'' (calls (specifyGroupId w defaults)))
     (\<lambda>r. case r of
        None \<Rightarrow> throw (OperationCanceledError ''GroupId not specified.'')
      | Some this_groupId \<Rightarrow>
     await (instrumentOperationStep ''ArtifactId'' (calls (specifyArtifactId w defaults)))
     (\<lambda>r. case r of
        None \<Rightarrow> throw (OperationCanceledError ''ArtifactId not specified.'')
      | Some this_artifactId \<Rightarrow>
     await (instrumentOperationStep ''Packaging'' (calls (specifyPackaging w defaults)))
     (\<lambda>r. case r of
        None \<Rightarrow> throw (OperationCanceledError ''Packaging not specified.'')
      | Some this_packaging \<Rightarrow>
     await (instrumentOperationStep ''BootVersion'' (calls (specifyBootVersion w)))
     (\<lambda>r. case r of
        None \<Rightarrow> throw (OperationCanceledError ''BootVersion not specified.'')
      | Some this_bootVersion \<Rightarrow>
     await (called [SendInfo [(''bootVersion'', this_bootVersion)]] (Resolved ()))
     (\<lambda>_.
     await (instrumentOperationStep ''Dependencies''
              (calls (specifyDependencies w this_bootVersion defaults)))
     (\<lambda>this_dependencies.
     await (called [SendInfo [(''depsType'', itemType this_dependencies),
                              (''dependencies'', id' this_dependencies)]] (Resolved ()))
     (\<lambda>_.
     await (instrumentOperationStep ''TargetFolder''
              (calls (specifyTargetFolder w defaults this_artifactId)))
     (\<lambda>r. case r of
        None \<Rightarrow> throw (OperationCanceledError ''Target folder not specified.'')
      | Some this_outputUri \<Rightarrow>
     resolve \<lparr>serviceUrl = this_serviceUrl, artifactId = this_artifactId, groupId = this_groupId,
              language = this_language, projectType = pt, packaging = this_packaging,
              bootVersion = this_bootVersion, dependencies = this_dependencies,
              outputUri = this_outputUri\<rparr>)))))))))))"

text \<open>Lines 96-107: how the generated project is opened.\<close>

definition runSteps_open :: "world \<Rightarrow> GenerateProjectHandler \<Rightarrow> (event, unit) io" where
  "runSteps_open w this =
     (let hasOpenFolder = (workspaceFolders w \<noteq> None \<or> rootPath w \<noteq> None);
          projectLocation = fsPath (outputUri this)
      in await (specifyOpenMethod w hasOpenFolder (fsPath (outputUri this)))
         (\<lambda>choice.
            if choice = Some OPEN_IN_NEW_WORKSPACE
            then called [ExecuteCommand ''vscode.openFolder''
                           (uriFile w (pathJoin w projectLocation (artifactId this))) hasOpenFolder]
                   (Resolved ())
            else if choice = Some OPEN_IN_CURRENT_WORKSPACE
            then (if (case rootPath w of
                        None \<Rightarrow> True
                      | Some r \<Rightarrow> r = [] \<or> \<not> startsWith (fsPath (outputUri this)) r)
                  then (case workspaceFolders w of
                          None \<Rightarrow> throw (TypeError ''find'')
                        | Some folders \<Rightarrow>
                            if find (\<lambda>workspaceFolder.
                                       case uri workspaceFolder of
                                         None \<Rightarrow> False
                                       | Some u \<Rightarrow> startsWith (fsPath (outputUri this)) (fsPath u))
                                 folders = None
                            then called [UpdateWorkspaceFolders (length folders)
                                           (uriFile w (pathJoin w projectLocation (artifactId this)))]
                                   (Resolved ())
                            else resolve ())
                  else resolve ())
            else resolve ()))"

definition runSteps :: "world \<Rightarrow> ProjectType \<Rightarrow> WizardParams \<Rightarrow> (event, unit) io" where
  "runSteps w pt defaults =
     await (runSteps_answers w pt defaults)
     (\<lambda>this.
     await (instrumentOperationStep ''DownloadUnzip''
              (downloadAndUnzip w (downloadUrl this) (fsPath (outputUri this))))
     (\<lambda>_.
     await (updateLastUsedDependencies (dependencies this))
     (\<lambda>_. runSteps_open w this)))"

subsection \<open>Reading a URL's query string\<close>

text \<open>\<^verbatim>\<open>s.split(c)\<close>, and the \<^verbatim>\<open>&\<close>-separated parameters after the \<^verbatim>\<open>?\<close> of a URL: what
  the receiving service sees of the download URL.\<close>

fun splitOn :: "char \<Rightarrow> string \<Rightarrow> string list" where
  "splitOn c [] = [[]]"
| "splitOn c (x # xs) =
     (if x = c then [] # splitOn c xs
      else (case splitOn c xs of [] \<Rightarrow> [[x]] | y # ys \<Rightarrow> (x # y) # ys))"

definition queryOf :: "string \<Rightarrow> string list" where
  "queryOf url = splitOn CHR ''&'' (drop 1 (dropWhile (\<lambda>c. c \<noteq> CHR ''?'') url))"

subsection \<open>Notions used to state the properties\<close>

text \<open>The sequence of values \<^verbatim>\<open>outputUri\<close> takes in \<^verbatim>\<open>specifyTargetFolder\<close>: the default
  target folder when there is one, then what the folder dialogs resolve to.\<close>

definition candidateFolders :: "world \<Rightarrow> WizardParams \<Rightarrow> Uri option promise list" where
  "candidateFolders w defaults =
     (case default_targetFolder defaults of
        None \<Rightarrow> folderDialogs w
      | Some t \<Rightarrow> if t = [] then folderDialogs w
                  else Resolved (Some (uriFile w t)) # folderDialogs w)"

text \<open>The calls of \<^verbatim>\<open>specifyTargetFolder\<close> before its loop (line 212).\<close>

definition entryCalls :: "WizardParams \<Rightarrow> call list" where
  "entryCalls defaults =
     (case default_targetFolder defaults of
        None \<Rightarrow> [OpenDialogForFolder LABEL_CHOOSE_FOLDER]
      | Some t \<Rightarrow> if t = [] then [OpenDialogForFolder LABEL_CHOOSE_FOLDER] else [])"

text \<open>One choose-another-folder round trip at the candidate \<open>u\<close>: the folder is found
  to hold the project's directory, the warning is shown, the folder dialog is opened
  again.\<close>

definition roundTrip :: "world \<Rightarrow> string \<Rightarrow> Uri \<Rightarrow> call list" where
  "roundTrip w projectName u =
     [PathExists (pathJoin w (fsPath u) projectName),
      ShowWarningMessage (MESSAGE_EXISTING_FOLDER projectName),
      OpenDialogForFolder LABEL_CHOOSE_FOLDER]"

text \<open>One iteration of the dependency loop in which the dependency \<open>i\<close> is picked.\<close>

definition toggleRound :: "string \<Rightarrow> string list \<Rightarrow> string \<Rightarrow> call list" where
  "toggleRound bv ds i =
     [SetSelectedIds ds, GetQuickPickItems bv ds, ShowQuickPick ''Search for dependencies.'',
      ToggleDependency i]"

text \<open>The roots that are open in the editor: \<^verbatim>\<open>vscode.workspace.rootPath\<close> (when it is
  not falsy) and the \<^verbatim>\<open>uri.fsPath\<close> of every workspace folder that has a \<^verbatim>\<open>uri\<close>.\<close>

definition existingRoots :: "world \<Rightarrow> string list" where
  "existingRoots w =
     (case rootPath w of None \<Rightarrow> [] | Some r \<Rightarrow> if r = [] then [] else [r])
     @ (case workspaceFolders w of
          None \<Rightarrow> []
        | Some folders \<Rightarrow>
            concat (map (\<lambda>f. case uri f of None \<Rightarrow> [] | Some u \<Rightarrow> [fsPath u]) folders))"

text \<open>A sample run: no folder is open, nothing is configured, the user answers every
  prompt; the folders \<^verbatim>\<open>/a\<close> and \<^verbatim>\<open>/c\<close> already hold a directory \<^verbatim>\<open>demo\<close>.\<close>

definition exampleWorld :: world where
  "exampleWorld =
     \<lparr>toLowerCase = (\<lambda>s. s),
      pathJoin = (\<lambda>a b. a @ ''/'' @ b),
      uriFile = (\<lambda>p. \<lparr>fsPath = p\<rparr>),
      getConfiguration = (\<lambda>k. None),
      rootPath = None,
      workspaceFolders = None,
      pathExists = (\<lambda>p. p = ''/a/demo'' \<or> p = ''/c/demo''),
      downloadFile = (\<lambda>url. Resolved ''/tmp/starter.zip''),
      extractZip = (\<lambda>f d. None),
      serviceUrlAnswer = Resolved (Some ''https://start.spring.io''),
      languagePick = Resolved (Some ''java''),
      groupIdInput = Resolved (Some ''com.example''),
      artifactIdInput = Resolved (Some ''demo''),
      packagingPick = Resolved (Some ''jar''),
      bootVersionPick =
        Resolved (Some \<lparr>item_value = Some \<lparr>value_id = ''2.7.0'', value_name = ''2.7.0''\<rparr>,
                        item_label = ''2.7.0''\<rparr>),
      dependencyPicks = [Resolved PickConfirm],
      folderDialogs = [Resolved (Some \<lparr>fsPath = ''/b''\<rparr>)],
      warningChoices = [],
      openMethodChoice = Resolved (Some ''Open'')\<rparr>"

definition noDefaults :: WizardParams where
  "noDefaults = \<lparr>default_artifactId = None, default_groupId = None, default_language = None,
      default_projectType = None, default_packaging = None, default_bootVersion = None,
      default_dependencies = None, default_targetFolder = None\<rparr>"

text \<open>The handler's fields after the sample run.\<close>

definition exampleAnswers :: GenerateProjectHandler where
  "exampleAnswers =
     \<lparr>serviceUrl = ''https://start.spring.io'', artifactId = ''demo'',
      groupId = ''com.example'', language = ''java'', projectType = MavenProject,
      packaging = ''jar'', bootVersion = ''2.7.0'',
      dependencies = \<lparr>itemType = ''confirm'', id' = []\<rparr>,
      outputUri = \<lparr>fsPath = ''/b''\<rparr>\<rparr>"

text \<open>The trace of one instrumented step function that made the calls \<open>cs\<close>.\<close>

definition stepTrace :: "string \<Rightarrow> call list \<Rightarrow> event list" where
  "stepTrace name cs = Step name # map Call cs"

text \<open>The arguments of the calls \<^verbatim>\<open>dependencyManager.updateLastUsedDependencies(...)\<close> in a
  trace, in order.\<close>

definition lastUsedUpdates :: "event list \<Rightarrow> IDependenciesItem list" where
  "lastUsedUpdates tr =
     concat (map (\<lambda>e. case e of UpdateLastUsedDependencies v \<Rightarrow> [v] | _ \<Rightarrow> []) tr)"

text \<open>The handler of a run in which every step yielded its value and the download and the
  extraction completed; \<open>None\<close> for every other run (a step cancelled, failed or was
  never answered; the download or the extraction failed or never ended).\<close>

definition downloadedAndUnzipped :: "world \<Rightarrow> ProjectType \<Rightarrow> WizardParams \<Rightarrow> DependencyManager
    \<Rightarrow> GenerateProjectHandler option" where
  "downloadedAndUnzipped w pt defaults dm =
     (case runSteps_answers w pt defaults dm of
        (esA, Resolved this, dmA) \<Rightarrow>
          (case downloadAndUnzip w (downloadUrl this) (fsPath (outputUri this)) dmA of
             (esD, Resolved u, dmD) \<Rightarrow> Some this
           | (esD, Rejected e, dmD) \<Rightarrow> None
           | (esD, Pending, dmD) \<Rightarrow> None)
      | (esA, Rejected e, dmA) \<Rightarrow> None
      | (esA, Pending, dmA) \<Rightarrow> None)"

text \<open>A computation that neither calls \<^verbatim>\<open>updateLastUsedDependencies\<close> nor changes the
  last used dependencies (\<open>quiet\<close>, for traces of events), and one that does not change
  the last used dependencies (\<open>keeps\<close>, for step functions).\<close>

definition quiet :: "(event, 'a) io \<Rightarrow> bool" where
  "quiet m = (\<forall>dm. lastUsedUpdates (fst (m dm)) = [] \<and> lastUsed (snd (snd (m dm))) = lastUsed dm)"

definition keeps :: "(call, 'a) io \<Rightarrow> bool" where
  "keeps m = (\<forall>dm. lastUsed (snd (snd (m dm))) = lastUsed dm)"

section \<open>Properties\<close>

subsection \<open>The download URL\<close>

text \<open>C2 (as the code has it). For the answers groupId \<^verbatim>\<open>com.example\<close>, artifactId
  \<^verbatim>\<open>demo\<close>, language \<^verbatim>\<open>java\<close>, packaging \<^verbatim>\<open>jar\<close>, boot version \<^verbatim>\<open>2.7.0\<close>,
  dependencies id \<^verbatim>\<open>web,data-jpa\<close> and project type \<^verbatim>\<open>maven-project\<close>, the download URL is
  the service URL followed by \<^verbatim>\<open>/starter.zip?\<close> and exactly eight parameters, in this
  order: type, language, groupId, artifactId, packaging, bootVersion, baseDir (the
  artifact id) and dependencies. The version travels under the name \<^verbatim>\<open>bootVersion\<close>.\<close>

theorem C2_downloadUrl_example:
  "downloadUrl \<lparr>serviceUrl = url, artifactId = ''demo'',
        groupId = ''com.example'', language = ''java'', projectType = MavenProject,
        packaging = ''jar'', bootVersion = ''2.7.0'',
        dependencies = \<lparr>itemType = t, id' = ''web,data-jpa''\<rparr>,
        outputUri = out\<rparr>
   = url @ ''/starter.zip?type=maven-project&language=java&groupId=com.example&artifactId=demo&packaging=jar&bootVersion=2.7.0&baseDir=demo&dependencies=web,data-jpa''
  \<and> queryOf (downloadUrl \<lparr>serviceUrl = ''https://start.spring.io'', artifactId = ''demo'',
        groupId = ''com.example'', language = ''java'', projectType = MavenProject,
        packaging = ''jar'', bootVersion = ''2.7.0'',
        dependencies = \<lparr>itemType = t, id' = ''web,data-jpa''\<rparr>,
        outputUri = out\<rparr>) =
     [''type=maven-project'', ''language=java'', ''groupId=com.example'', ''artifactId=demo'',
      ''packaging=jar'', ''bootVersion=2.7.0'', ''baseDir=demo'', ''dependencies=web,data-jpa'']"
  by (simp add: downloadUrl_def downloadUrl_params_def queryOf_def)

text \<open>C2 as stated asks for a parameter named \<^verbatim>\<open>platformVersion\<close>. The URL built for the
  answers of the claim has no such parameter.\<close>

theorem C2_platformVersion_counterexample:
  "''platformVersion=2.7.0'' \<notin>
   set (queryOf (downloadUrl \<lparr>serviceUrl = ''https://start.spring.io'', artifactId = ''demo'',
        groupId = ''com.example'', language = ''java'', projectType = MavenProject,
        packaging = ''jar'', bootVersion = ''2.7.0'',
        dependencies = \<lparr>itemType = ''confirm'', id' = ''web,data-jpa''\<rparr>,
        outputUri = \<lparr>fsPath = ''/home/me''\<rparr>\<rparr>))"
  by (simp add: downloadUrl_def downloadUrl_params_def queryOf_def)

subsection \<open>Promises\<close>

lemma resolve_apply [simp]: "resolve v dm = ([], Resolved v, dm)"
  by (simp add: resolve_def)

lemma throw_apply [simp]: "throw e dm = ([], Rejected e, dm)"
  by (simp add: throw_def)

lemma called_apply [simp]: "called es p dm = (es, p, dm)"
  by (simp add: called_def)

lemma await_apply:
  "await m f dm =
     (case m dm of
        (es, Resolved v, dm1) \<Rightarrow> (case f v dm1 of (es2, r, dm2) \<Rightarrow> (es @ es2, r, dm2))
      | (es, Rejected e, dm1) \<Rightarrow> (es, Rejected e, dm1)
      | (es, Pending, dm1) \<Rightarrow> (es, Pending, dm1))"
  by (simp add: await_def)

lemma await_Resolved [simp]:
  "m dm = (es, Resolved v, dm1) \<Longrightarrow>
   await m f dm = (es @ fst (f v dm1), fst (snd (f v dm1)), snd (snd (f v dm1)))"
  by (simp add: await_def split: prod.splits)

lemma await_Rejected [simp]:
  "m dm = (es, Rejected e, dm1) \<Longrightarrow> await m f dm = (es, Rejected e, dm1)"
  by (simp add: await_def)

lemma await_Pending [simp]:
  "m dm = (es, Pending, dm1) \<Longrightarrow> await m f dm = (es, Pending, dm1)"
  by (simp add: await_def)

lemma calls_apply:
  "calls m dm = (case m dm of (cs, r, dm1) \<Rightarrow> (map Call cs, r, dm1))"
  by (simp add: calls_def)

lemma instrumentOperationStep_apply:
  "instrumentOperationStep name m dm = (case m dm of (es, r, dm1) \<Rightarrow> (Step name # es, r, dm1))"
  by (simp add: instrumentOperationStep_def)

subsection \<open>The target folder\<close>

lemma targetFolderLoop_round_trips:
  "\<forall>x \<in> set (u # us). pathExists w (pathJoin w (fsPath x) pn) \<Longrightarrow>
   targetFolderLoop w pn (Some u)
     (replicate (Suc (length us)) (Resolved (Some OPTION_CHOOSE_ANOTHER_FOLDER)) @ cs)
     (map (\<lambda>x. Resolved (Some x)) us @ Resolved nxt # fs)
   = (concat (map (roundTrip w pn) (u # us)) @ fst (targetFolderLoop w pn nxt cs fs),
      snd (targetFolderLoop w pn nxt cs fs))"
proof (induction us arbitrary: u)
  case Nil
  then show ?case
    by (simp add: roundTrip_def split: prod.splits)
next
  case (Cons a us)
  have "\<forall>x \<in> set (a # us). pathExists w (pathJoin w (fsPath x) pn)"
    using Cons.prems by simp
  from Cons.IH [OF this] show ?case
    using Cons.prems by (simp add: roundTrip_def)
qed

lemma specifyTargetFolder_loop:
  "candidateFolders w defaults = Resolved c # fs \<Longrightarrow>
   specifyTargetFolder w defaults pn dm =
     (entryCalls defaults @ fst (targetFolderLoop w pn c (warningChoices w) fs),
      snd (targetFolderLoop w pn c (warningChoices w) fs), dm)"
  by (auto simp: candidateFolders_def specifyTargetFolder_def entryCalls_def
        openDialogForFolder_def
      split: option.splits if_splits prod.splits list.splits)

lemma specifyTargetFolder_candidates:
  assumes "candidateFolders w defaults = map (\<lambda>u. Resolved (Some u)) us @ Resolved nxt # fs"
    and "\<forall>x \<in> set us. pathExists w (pathJoin w (fsPath x) pn)"
    and "warningChoices w =
           replicate (length us) (Resolved (Some OPTION_CHOOSE_ANOTHER_FOLDER)) @ cs"
  shows "specifyTargetFolder w defaults pn dm =
           (entryCalls defaults @ concat (map (roundTrip w pn) us)
              @ fst (targetFolderLoop w pn nxt cs fs),
            snd (targetFolderLoop w pn nxt cs fs), dm)"
proof (cases us)
  case Nil
  with assms show ?thesis
    by (simp add: specifyTargetFolder_loop)
next
  case (Cons u us')
  with assms(1) have "candidateFolders w defaults =
      Resolved (Some u) # (map (\<lambda>u. Resolved (Some u)) us' @ Resolved nxt # fs)"
    by simp
  from specifyTargetFolder_loop [OF this] show ?thesis
    using assms(2,3) Cons targetFolderLoop_round_trips [of u us' w pn cs nxt fs]
    by simp
qed

lemma roundTrip_warningChoices [simp]:
  "roundTrip (w\<lparr>warningChoices := x\<rparr>) pn = roundTrip w pn"
  by (rule ext) (simp add: roundTrip_def)

text \<open>C4. Let the candidate folders be \<open>us\<close> followed by one more, where every folder of
  \<open>us\<close> already holds a directory named after the project, and let the user answer each
  of these conflicts with "Choose another folder" (\<open>K\<close> is the length of \<open>us\<close>).
  \<^item> If the next candidate \<open>v\<close> holds no such directory, the step makes exactly the
    \<open>K\<close> round trips, checks \<open>v\<close> and returns \<open>v\<close>.
  \<^item> If \<open>v\<close> holds such a directory and the user answers "Continue", the step returns
    \<open>v\<close> at once: after the warning no dialog follows.
  \<^item> If the folder dialog is dismissed (it resolves to no folder), the step returns no
    folder.\<close>

theorem C4_target_folder_round_trips:
  assumes "\<forall>u \<in> set us. pathExists w (pathJoin w (fsPath u) projectName)"
    and "warningChoices w =
           replicate (length us) (Resolved (Some OPTION_CHOOSE_ANOTHER_FOLDER)) @ cs"
  shows
    "(candidateFolders w defaults = map (\<lambda>u. Resolved (Some u)) (us @ [v]) @ fs \<and>
      \<not> pathExists w (pathJoin w (fsPath v) projectName) \<longrightarrow>
        specifyTargetFolder w defaults projectName dm =
          (entryCalls defaults @ concat (map (roundTrip w projectName) us)
             @ [PathExists (pathJoin w (fsPath v) projectName)],
           Resolved (Some v), dm))
   \<and> (candidateFolders w defaults = map (\<lambda>u. Resolved (Some u)) (us @ [v]) @ fs \<and>
      pathExists w (pathJoin w (fsPath v) projectName) \<and>
      cs = Resolved (Some OPTION_CONTINUE) # cs' \<longrightarrow>
        specifyTargetFolder w defaults projectName dm =
          (entryCalls defaults @ concat (map (roundTrip w projectName) us)
             @ [PathExists (pathJoin w (fsPath v) projectName),
                ShowWarningMessage (MESSAGE_EXISTING_FOLDER projectName)],
           Resolved (Some v), dm))
   \<and> (candidateFolders w defaults = map (\<lambda>u. Resolved (Some u)) us @ Resolved None # fs \<longrightarrow>
        specifyTargetFolder w defaults projectName dm =
          (entryCalls defaults @ concat (map (roundTrip w projectName) us),
           Resolved None, dm))"
proof (intro conjI impI)
  assume a: "candidateFolders w defaults = map (\<lambda>u. Resolved (Some u)) (us @ [v]) @ fs \<and>
      \<not> pathExists w (pathJoin w (fsPath v) projectName)"
  then have "candidateFolders w defaults =
      map (\<lambda>u. Resolved (Some u)) us @ Resolved (Some v) # fs" by simp
  from specifyTargetFolder_candidates [OF this assms] a
  show "specifyTargetFolder w defaults projectName dm =
          (entryCalls defaults @ concat (map (roundTrip w projectName) us)
             @ [PathExists (pathJoin w (fsPath v) projectName)],
           Resolved (Some v), dm)"
    by simp
next
  assume a: "candidateFolders w defaults = map (\<lambda>u. Resolved (Some u)) (us @ [v]) @ fs \<and>
      pathExists w (pathJoin w (fsPath v) projectName) \<and>
      cs = Resolved (Some OPTION_CONTINUE) # cs'"
  then have "candidateFolders w defaults =
      map (\<lambda>u. Resolved (Some u)) us @ Resolved (Some v) # fs" by simp
  from specifyTargetFolder_candidates [OF this assms] a
  show "specifyTargetFolder w defaults projectName dm =
          (entryCalls defaults @ concat (map (roundTrip w projectName) us)
             @ [PathExists (pathJoin w (fsPath v) projectName),
                ShowWarningMessage (MESSAGE_EXISTING_FOLDER projectName)],
           Resolved (Some v), dm)"
    by (simp add: OPTION_CONTINUE_def OPTION_CHOOSE_ANOTHER_FOLDER_def)
next
  assume "candidateFolders w defaults = map (\<lambda>u. Resolved (Some u)) us @ Resolved None # fs"
  from specifyTargetFolder_candidates [OF this assms]
  show "specifyTargetFolder w defaults projectName dm =
          (entryCalls defaults @ concat (map (roundTrip w projectName) us),
           Resolved None, dm)"
    by simp
qed

theorem C4_target_folder_round_trips_witness:
  "pathExists exampleWorld (pathJoin exampleWorld ''/a'' ''demo'')
   \<and> \<not> pathExists exampleWorld (pathJoin exampleWorld ''/b'' ''demo'')
   \<and> specifyTargetFolder
        (exampleWorld\<lparr>folderDialogs := [Resolved (Some \<lparr>fsPath = ''/a''\<rparr>),
                                          Resolved (Some \<lparr>fsPath = ''/b''\<rparr>)],
                       warningChoices := [Resolved (Some ''Choose another folder'')]\<rparr>)
        noDefaults ''demo'' \<lparr>selectedIds = [], lastUsed = None\<rparr>
      = ([OpenDialogForFolder ''Generate into this folder'',
          PathExists ''/a/demo'', ShowWarningMessage (MESSAGE_EXISTING_FOLDER ''demo''),
          OpenDialogForFolder ''Generate into this folder'',
          PathExists ''/b/demo''],
         Resolved (Some \<lparr>fsPath = ''/b''\<rparr>), \<lparr>selectedIds = [], lastUsed = None\<rparr>)
   \<and> specifyTargetFolder
        (exampleWorld\<lparr>folderDialogs := [Resolved (Some \<lparr>fsPath = ''/a''\<rparr>),
                                          Resolved (Some \<lparr>fsPath = ''/c''\<rparr>)],
                       warningChoices := [Resolved (Some ''Choose another folder''),
                                          Resolved (Some ''Continue'')]\<rparr>)
        noDefaults ''demo'' \<lparr>selectedIds = [], lastUsed = None\<rparr>
      = ([OpenDialogForFolder ''Generate into this folder'',
          PathExists ''/a/demo'', ShowWarningMessage (MESSAGE_EXISTING_FOLDER ''demo''),
          OpenDialogForFolder ''Generate into this folder'',
          PathExists ''/c/demo'', ShowWarningMessage (MESSAGE_EXISTING_FOLDER ''demo'')],
         Resolved (Some \<lparr>fsPath = ''/c''\<rparr>), \<lparr>selectedIds = [], lastUsed = None\<rparr>)
   \<and> specifyTargetFolder
        (exampleWorld\<lparr>folderDialogs := [Resolved (Some \<lparr>fsPath = ''/a''\<rparr>), Resolved None],
                       warningChoices := [Resolved (Some ''Choose another folder'')]\<rparr>)
        noDefaults ''demo'' \<lparr>selectedIds = [], lastUsed = None\<rparr>
      = ([OpenDialogForFolder ''Generate into this folder'',
          PathExists ''/a/demo'', ShowWarningMessage (MESSAGE_EXISTING_FOLDER ''demo''),
          OpenDialogForFolder ''Generate into this folder''],
         Resolved None, \<lparr>selectedIds = [], lastUsed = None\<rparr>)"
  using
    C4_target_folder_round_trips [where us = "[\<lparr>fsPath = ''/a''\<rparr>]" and v = "\<lparr>fsPath = ''/b''\<rparr>"
      and w = "exampleWorld\<lparr>folderDialogs := [Resolved (Some \<lparr>fsPath = ''/a''\<rparr>),
                                          Resolved (Some \<lparr>fsPath = ''/b''\<rparr>)],
                       warningChoices := [Resolved (Some ''Choose another folder'')]\<rparr>"
      and projectName = "''demo''" and cs = "[]" and defaults = noDefaults and fs = "[]"
      and dm = "\<lparr>selectedIds = [], lastUsed = None\<rparr>"]
    C4_target_folder_round_trips [where us = "[\<lparr>fsPath = ''/a''\<rparr>]" and v = "\<lparr>fsPath = ''/c''\<rparr>"
      and w = "exampleWorld\<lparr>folderDialogs := [Resolved (Some \<lparr>fsPath = ''/a''\<rparr>),
                                          Resolved (Some \<lparr>fsPath = ''/c''\<rparr>)],
                       warningChoices := [Resolved (Some ''Choose another folder''),
                                          Resolved (Some ''Continue'')]\<rparr>"
      and projectName = "''demo''" and cs = "[Resolved (Some ''Continue'')]" and cs' = "[]"
      and defaults = noDefaults and fs = "[]"
      and dm = "\<lparr>selectedIds = [], lastUsed = None\<rparr>"]
    C4_target_folder_round_trips [where us = "[\<lparr>fsPath = ''/a''\<rparr>]"
      and w = "exampleWorld\<lparr>folderDialogs := [Resolved (Some \<lparr>fsPath = ''/a''\<rparr>), Resolved None],
                       warningChoices := [Resolved (Some ''Choose another folder'')]\<rparr>"
      and projectName = "''demo''" and cs = "[]" and defaults = noDefaults and fs = "[]"
      and dm = "\<lparr>selectedIds = [], lastUsed = None\<rparr>"]
  by (simp add: exampleWorld_def noDefaults_def candidateFolders_def entryCalls_def
        roundTrip_def OPTION_CHOOSE_ANOTHER_FOLDER_def OPTION_CONTINUE_def
        LABEL_CHOOSE_FOLDER_def)

text \<open>C9. At a candidate \<open>v\<close> that holds the project's directory, dismissing the warning
  (it resolves to no choice) leaves the loop like "Continue" does: the step returns \<open>v\<close>,
  after the same calls, and neither asks again nor cancels.\<close>

theorem C9_dismissed_warning_continues:
  assumes "\<forall>u \<in> set us. pathExists w (pathJoin w (fsPath u) projectName)"
    and "candidateFolders w defaults = map (\<lambda>u. Resolved (Some u)) (us @ [v]) @ fs"
    and "pathExists w (pathJoin w (fsPath v) projectName)"
    and "warningChoices w =
           replicate (length us) (Resolved (Some OPTION_CHOOSE_ANOTHER_FOLDER))
             @ Resolved None # cs"
  shows "specifyTargetFolder w defaults projectName dm =
           (entryCalls defaults @ concat (map (roundTrip w projectName) us)
              @ [PathExists (pathJoin w (fsPath v) projectName),
                 ShowWarningMessage (MESSAGE_EXISTING_FOLDER projectName)],
            Resolved (Some v), dm)
       \<and> specifyTargetFolder w defaults projectName dm =
         specifyTargetFolder
           (w\<lparr>warningChoices :=
                 replicate (length us) (Resolved (Some OPTION_CHOOSE_ANOTHER_FOLDER))
                   @ Resolved (Some OPTION_CONTINUE) # cs\<rparr>) defaults projectName dm"
proof -
  let ?w = "w\<lparr>warningChoices :=
                 replicate (length us) (Resolved (Some OPTION_CHOOSE_ANOTHER_FOLDER))
                   @ Resolved (Some OPTION_CONTINUE) # cs\<rparr>"
  have c: "candidateFolders w defaults =
      map (\<lambda>u. Resolved (Some u)) us @ Resolved (Some v) # fs"
    using assms(2) by simp
  have 1: "specifyTargetFolder w defaults projectName dm =
           (entryCalls defaults @ concat (map (roundTrip w projectName) us)
              @ [PathExists (pathJoin w (fsPath v) projectName),
                 ShowWarningMessage (MESSAGE_EXISTING_FOLDER projectName)],
            Resolved (Some v), dm)"
    using specifyTargetFolder_candidates [OF c assms(1) assms(4)] assms(3)
    by simp
  have c': "candidateFolders ?w defaults =
      map (\<lambda>u. Resolved (Some u)) us @ Resolved (Some v) # fs"
    using c by (simp add: candidateFolders_def split: option.splits if_splits)
  have 2: "specifyTargetFolder ?w defaults projectName dm =
           (entryCalls defaults @ concat (map (roundTrip w projectName) us)
              @ [PathExists (pathJoin w (fsPath v) projectName),
                 ShowWarningMessage (MESSAGE_EXISTING_FOLDER projectName)],
            Resolved (Some v), dm)"
    using specifyTargetFolder_candidates [OF c', of projectName
        "Resolved (Some OPTION_CONTINUE) # cs" dm] assms(1) assms(3)
    by (simp add: OPTION_CONTINUE_def OPTION_CHOOSE_ANOTHER_FOLDER_def)
  from 1 2 show ?thesis by simp
qed

theorem C9_dismissed_warning_continues_witness:
  "pathExists exampleWorld (pathJoin exampleWorld ''/a'' ''demo'')
   \<and> pathExists exampleWorld (pathJoin exampleWorld ''/c'' ''demo'')
   \<and> specifyTargetFolder
        (exampleWorld\<lparr>folderDialogs := [Resolved (Some \<lparr>fsPath = ''/a''\<rparr>),
                                          Resolved (Some \<lparr>fsPath = ''/c''\<rparr>)],
                       warningChoices := [Resolved (Some ''Choose another folder''),
                                          Resolved None]\<rparr>)
        noDefaults ''demo'' \<lparr>selectedIds = [], lastUsed = None\<rparr>
      = ([OpenDialogForFolder ''Generate into this folder'',
          PathExists ''/a/demo'', ShowWarningMessage (MESSAGE_EXISTING_FOLDER ''demo''),
          OpenDialogForFolder ''Generate into this folder'',
          PathExists ''/c/demo'', ShowWarningMessage (MESSAGE_EXISTING_FOLDER ''demo'')],
         Resolved (Some \<lparr>fsPath = ''/c''\<rparr>), \<lparr>selectedIds = [], lastUsed = None\<rparr>)"
  using
    C9_dismissed_warning_continues [where us = "[\<lparr>fsPath = ''/a''\<rparr>]" and v = "\<lparr>fsPath = ''/c''\<rparr>"
      and w = "exampleWorld\<lparr>folderDialogs := [Resolved (Some \<lparr>fsPath = ''/a''\<rparr>),
                                          Resolved (Some \<lparr>fsPath = ''/c''\<rparr>)],
                       warningChoices := [Resolved (Some ''Choose another folder''),
                                          Resolved None]\<rparr>"
      and projectName = "''demo''" and cs = "[]" and defaults = noDefaults and fs = "[]"
      and dm = "\<lparr>selectedIds = [], lastUsed = None\<rparr>"]
  by (simp add: exampleWorld_def noDefaults_def candidateFolders_def entryCalls_def
        roundTrip_def OPTION_CHOOSE_ANOTHER_FOLDER_def OPTION_CONTINUE_def
        LABEL_CHOOSE_FOLDER_def)

subsection \<open>The dependency selection\<close>

lemma dependenciesLoop_reset:
  "dependenciesLoop bv ds ps (dm\<lparr>selectedIds := x\<rparr>) = dependenciesLoop bv ds ps dm"
  by (cases ps) simp_all

lemma dependenciesLoop_toggles:
  "dependenciesLoop bv ds (map (\<lambda>i. Resolved (PickDependency i)) ids @ ps) dm =
     (concat (map (toggleRound bv ds) ids) @ fst (dependenciesLoop bv ds ps dm),
      snd (dependenciesLoop bv ds ps dm))"
proof (induction ids arbitrary: dm)
  case Nil
  show ?case by simp
next
  case (Cons i ids)
  show ?case
    by (simp add: Cons.IH pickedItem_def toggleDependency_def dependenciesLoop_reset
          toggleRound_def split: prod.splits)
qed

text \<open>C5. When the dependency quick pick is dismissed, after any number of dependency
  picks, \<^verbatim>\<open>specifyDependencies\<close> is rejected with \<^verbatim>\<open>OperationCanceledError\<close>; the
  dismissed prompt is the last call it makes.\<close>

theorem C5_dismissed_quick_pick_cancels:
  assumes "dependencyPicks w = map (\<lambda>i. Resolved (PickDependency i)) ids @ Resolved Dismiss # rest"
  shows "specifyDependencies w bv defaults dm =
           (concat (map (toggleRound bv
                      (case default_dependencies defaults of None \<Rightarrow> [] | Some ds \<Rightarrow> ds)) ids)
              @ [SetSelectedIds (case default_dependencies defaults of None \<Rightarrow> [] | Some ds \<Rightarrow> ds),
                 GetQuickPickItems bv
                   (case default_dependencies defaults of None \<Rightarrow> [] | Some ds \<Rightarrow> ds),
                 ShowQuickPick ''Search for dependencies.''],
            Rejected (OperationCanceledError ''Canceled on dependency seletion.''),
            dm\<lparr>selectedIds := (case default_dependencies defaults of None \<Rightarrow> [] | Some ds \<Rightarrow> ds)\<rparr>)"
  using assms
  by (simp add: specifyDependencies_def dependenciesLoop_toggles pickedItem_def)

theorem C5_dismissed_quick_pick_cancels_witness:
  "specifyDependencies
     (exampleWorld\<lparr>dependencyPicks := [Resolved (PickDependency ''web''), Resolved Dismiss]\<rparr>)
     ''2.7.0'' noDefaults \<lparr>selectedIds = [], lastUsed = None\<rparr>
   = ([SetSelectedIds [], GetQuickPickItems ''2.7.0'' [],
       ShowQuickPick ''Search for dependencies.'', ToggleDependency ''web'',
       SetSelectedIds [], GetQuickPickItems ''2.7.0'' [],
       ShowQuickPick ''Search for dependencies.''],
      Rejected (OperationCanceledError ''Canceled on dependency seletion.''),
      \<lparr>selectedIds = [], lastUsed = None\<rparr>)"
  using C5_dismissed_quick_pick_cancels [where ids = "[''web'']" and rest = "[]"
      and w = "exampleWorld\<lparr>dependencyPicks :=
                 [Resolved (PickDependency ''web''), Resolved Dismiss]\<rparr>"
      and bv = "''2.7.0''" and defaults = noDefaults
      and dm = "\<lparr>selectedIds = [], lastUsed = None\<rparr>"]
  by (simp add: noDefaults_def toggleRound_def)

text \<open>Toggling twice restores the selection (as a set); but in the loop every prompt is
  built from the default selection, whatever has been toggled before.\<close>

lemma toggleDependency_twice:
  "set (selectedIds (toggleDependency i (toggleDependency i dm))) = set (selectedIds dm)"
  by (auto simp: toggleDependency_def)

lemma specifyDependencies_confirm_after_toggles:
  "dependencyPicks w = map (\<lambda>i. Resolved (PickDependency i)) ids @ Resolved PickConfirm # rest \<Longrightarrow>
   fst (snd (specifyDependencies w bv defaults dm)) =
     Resolved \<lparr>itemType = ''confirm'',
               id' = join '','' (case default_dependencies defaults of None \<Rightarrow> [] | Some ds \<Rightarrow> ds)\<rparr>"
  by (simp add: specifyDependencies_def dependenciesLoop_toggles pickedItem_def)

text \<open>C3, at the input where the code departs from it: no default dependencies, the user
  picks the dependency \<^verbatim>\<open>web\<close> and then the confirm item. The selection is assigned
  anew (line 191) before the second prompt, so the toggle is lost: the confirm item that
  is returned stands for the empty selection, not for \<^verbatim>\<open>web\<close>.\<close>

theorem C3_toggle_lost_at_confirm:
  "specifyDependencies
     (w\<lparr>dependencyPicks := [Resolved (PickDependency ''web''), Resolved PickConfirm]\<rparr>)
     bv (defaults\<lparr>default_dependencies := None\<rparr>) dm
   = ([SetSelectedIds [], GetQuickPickItems bv [], ShowQuickPick ''Search for dependencies.'',
       ToggleDependency ''web'',
       SetSelectedIds [], GetQuickPickItems bv [], ShowQuickPick ''Search for dependencies.''],
      Resolved \<lparr>itemType = ''confirm'', id' = []\<rparr>,
      dm\<lparr>selectedIds := []\<rparr>)"
  by (simp add: specifyDependencies_def pickedItem_def toggleDependency_def)

subsection \<open>Download and extraction\<close>

text \<open>C7. A failed download rejects with the download's own error and nothing is
  extracted; a failed extraction rejects with the extractor's own error; the two phase
  labels are reported in the order downloading, unzipping, each before its phase.\<close>

theorem C7_download_then_unzip:
  "(downloadFile w targetUrl = Rejected e \<longrightarrow>
      downloadAndUnzip w targetUrl targetFolder dm =
        ([Report ''Downloading zip package...'', DownloadFile targetUrl], Rejected e, dm))
   \<and> (downloadFile w targetUrl = Resolved filepath \<and>
        extractZip w filepath targetFolder = Some e \<longrightarrow>
      downloadAndUnzip w targetUrl targetFolder dm =
        ([Report ''Downloading zip package...'', DownloadFile targetUrl,
          Report ''Starting to unzip...'', ExtractZip filepath targetFolder], Rejected e, dm))
   \<and> (downloadFile w targetUrl = Resolved filepath \<and>
        extractZip w filepath targetFolder = None \<longrightarrow>
      downloadAndUnzip w targetUrl targetFolder dm =
        ([Report ''Downloading zip package...'', DownloadFile targetUrl,
          Report ''Starting to unzip...'', ExtractZip filepath targetFolder], Resolved (), dm))"
  by (simp add: downloadAndUnzip_def)

theorem C7_download_then_unzip_witness:
  "downloadAndUnzip (exampleWorld\<lparr>downloadFile := (\<lambda>url. Rejected (HostError ''ECONNRESET''))\<rparr>)
       ''https://start.spring.io/starter.zip?type=maven-project'' ''/b''
       \<lparr>selectedIds = [], lastUsed = None\<rparr>
     = ([Report ''Downloading zip package...'',
         DownloadFile ''https://start.spring.io/starter.zip?type=maven-project''],
        Rejected (HostError ''ECONNRESET''), \<lparr>selectedIds = [], lastUsed = None\<rparr>)
   \<and> downloadAndUnzip (exampleWorld\<lparr>extractZip := (\<lambda>f d. Some (HostError ''invalid zip''))\<rparr>)
       ''https://start.spring.io/starter.zip?type=maven-project'' ''/b''
       \<lparr>selectedIds = [], lastUsed = None\<rparr>
     = ([Report ''Downloading zip package...'',
         DownloadFile ''https://start.spring.io/starter.zip?type=maven-project'',
         Report ''Starting to unzip...'', ExtractZip ''/tmp/starter.zip'' ''/b''],
        Rejected (HostError ''invalid zip''), \<lparr>selectedIds = [], lastUsed = None\<rparr>)
   \<and> downloadAndUnzip exampleWorld
       ''https://start.spring.io/starter.zip?type=maven-project'' ''/b''
       \<lparr>selectedIds = [], lastUsed = None\<rparr>
     = ([Report ''Downloading zip package...'',
         DownloadFile ''https://start.spring.io/starter.zip?type=maven-project'',
         Report ''Starting to unzip...'', ExtractZip ''/tmp/starter.zip'' ''/b''],
        Resolved (), \<lparr>selectedIds = [], lastUsed = None\<rparr>)"
  using
    C7_download_then_unzip [where w = "exampleWorld\<lparr>downloadFile := (\<lambda>url. Rejected (HostError ''ECONNRESET''))\<rparr>"
      and targetUrl = "''https://start.spring.io/starter.zip?type=maven-project''"
      and targetFolder = "''/b''" and e = "HostError ''ECONNRESET''"
      and dm = "\<lparr>selectedIds = [], lastUsed = None\<rparr>"]
    C7_download_then_unzip [where w = "exampleWorld\<lparr>extractZip := (\<lambda>f d. Some (HostError ''invalid zip''))\<rparr>"
      and targetUrl = "''https://start.spring.io/starter.zip?type=maven-project''"
      and targetFolder = "''/b''" and e = "HostError ''invalid zip''"
      and filepath = "''/tmp/starter.zip''"
      and dm = "\<lparr>selectedIds = [], lastUsed = None\<rparr>"]
    C7_download_then_unzip [where w = exampleWorld
      and targetUrl = "''https://start.spring.io/starter.zip?type=maven-project''"
      and targetFolder = "''/b''"
      and filepath = "''/tmp/starter.zip''"
      and dm = "\<lparr>selectedIds = [], lastUsed = None\<rparr>"]
  by (simp add: exampleWorld_def)

subsection \<open>Opening the project\<close>

lemma bex_folder_roots:
  "(\<exists>r \<in> set (concat (map (\<lambda>f. case uri f of None \<Rightarrow> [] | Some u \<Rightarrow> [fsPath u]) folders)).
       startsWith p r)
   = (find (\<lambda>f. case uri f of None \<Rightarrow> False | Some u \<Rightarrow> startsWith p (fsPath u)) folders \<noteq> None)"
  by (induction folders) (auto split: option.splits)

lemma nested_in_existingRoots:
  "(\<exists>r \<in> set (existingRoots w). startsWith p r) =
     ((case rootPath w of None \<Rightarrow> False | Some r \<Rightarrow> r \<noteq> [] \<and> startsWith p r)
      \<or> (case workspaceFolders w of
            None \<Rightarrow> False
          | Some folders \<Rightarrow>
              find (\<lambda>f. case uri f of None \<Rightarrow> False | Some u \<Rightarrow> startsWith p (fsPath u)) folders
                \<noteq> None))"
proof -
  have split_roots: "(\<exists>r \<in> set (xs @ ys). startsWith p r) =
      ((\<exists>r \<in> set xs. startsWith p r) \<or> (\<exists>r \<in> set ys. startsWith p r))" for xs ys
    by auto
  have root: "(\<exists>r \<in> set (case rootPath w of None \<Rightarrow> [] | Some r \<Rightarrow> if r = [] then [] else [r]).
                 startsWith p r)
      = (case rootPath w of None \<Rightarrow> False | Some r \<Rightarrow> r \<noteq> [] \<and> startsWith p r)"
    by (cases "rootPath w") simp_all
  have folders: "(\<exists>r \<in> set (case workspaceFolders w of
          None \<Rightarrow> []
        | Some folders \<Rightarrow>
            concat (map (\<lambda>f. case uri f of None \<Rightarrow> [] | Some u \<Rightarrow> [fsPath u]) folders)).
                 startsWith p r)
      = (case workspaceFolders w of
            None \<Rightarrow> False
          | Some folders \<Rightarrow>
              find (\<lambda>f. case uri f of None \<Rightarrow> False | Some u \<Rightarrow> startsWith p (fsPath u)) folders
                \<noteq> None)"
  proof (cases "workspaceFolders w")
    case None
    then show ?thesis by simp
  next
    case (Some folders)
    then show ?thesis
      using bex_folder_roots [where p = p and folders = folders] by simp
  qed
  show ?thesis
    unfolding existingRoots_def split_roots root folders ..
qed

text \<open>C8 (as the code has it). When the open method is "Add to Workspace", the path
  that is tested is the folder the project is generated into
  (\<^verbatim>\<open>this.outputUri.fsPath\<close>, the code's \<^verbatim>\<open>projectLocation\<close>), not the path of the
  project that is added (\<^verbatim>\<open>path.join(projectLocation, this.artifactId)\<close>): if that folder
  starts with one of the existing roots, nothing more is called;
  \<^verbatim>\<open>updateWorkspaceFolders\<close> is called exactly when it starts with none of them and the
  list of workspace folders is defined.\<close>

theorem C8_add_to_workspace_containment:
  assumes "specifyOpenMethod w (workspaceFolders w \<noteq> None \<or> rootPath w \<noteq> None)
             (fsPath (outputUri this)) dm
           = (es, Resolved (Some OPEN_IN_CURRENT_WORKSPACE), dm')"
  shows "runSteps_open w this dm =
     (if \<exists>r \<in> set (existingRoots w). startsWith (fsPath (outputUri this)) r
      then (es, Resolved (), dm')
      else (case workspaceFolders w of
              None \<Rightarrow> (es, Rejected (TypeError ''find''), dm')
            | Some folders \<Rightarrow>
                (es @ [UpdateWorkspaceFolders (length folders)
                         (uriFile w (pathJoin w (fsPath (outputUri this)) (artifactId this)))],
                 Resolved (), dm')))"
proof -
  have ne: "OPEN_IN_CURRENT_WORKSPACE \<noteq> OPEN_IN_NEW_WORKSPACE"
    by (simp add: OPEN_IN_CURRENT_WORKSPACE_def OPEN_IN_NEW_WORKSPACE_def)
  have run: "runSteps_open w this dm =
      (if (case rootPath w of
             None \<Rightarrow> True
           | Some r \<Rightarrow> r = [] \<or> \<not> startsWith (fsPath (outputUri this)) r)
       then (case workspaceFolders w of
               None \<Rightarrow> (es, Rejected (TypeError ''find''), dm')
             | Some folders \<Rightarrow>
                 if find (\<lambda>f. case uri f of
                                 None \<Rightarrow> False
                               | Some u \<Rightarrow> startsWith (fsPath (outputUri this)) (fsPath u))
                      folders = None
                 then (es @ [UpdateWorkspaceFolders (length folders)
                         (uriFile w (pathJoin w (fsPath (outputUri this)) (artifactId this)))],
                       Resolved (), dm')
                 else (es, Resolved (), dm'))
       else (es, Resolved (), dm'))"
  proof -
    have aw: "await (specifyOpenMethod w (workspaceFolders w \<noteq> None \<or> rootPath w \<noteq> None)
                 (fsPath (outputUri this))) f dm
              = (es @ fst (f (Some OPEN_IN_CURRENT_WORKSPACE) dm'),
                 fst (snd (f (Some OPEN_IN_CURRENT_WORKSPACE) dm')),
                 snd (snd (f (Some OPEN_IN_CURRENT_WORKSPACE) dm')))"
      for f :: "string option \<Rightarrow> (event, unit) io"
      using assms by (rule await_Resolved)
    show ?thesis
      unfolding runSteps_open_def Let_def aw
      using ne by (simp split: option.splits)
  qed
  show ?thesis
    unfolding run nested_in_existingRoots
    by (cases "rootPath w"; cases "workspaceFolders w") auto
qed

theorem C8_add_to_workspace_containment_witness:
  "runSteps_open
     (exampleWorld\<lparr>rootPath := Some ''/home/me/ws'',
        workspaceFolders := Some [\<lparr>uri = Some \<lparr>fsPath = ''/home/me/ws''\<rparr>\<rparr>],
        openMethodChoice := Resolved (Some ''Add to Workspace'')\<rparr>)
     (exampleAnswers\<lparr>outputUri := \<lparr>fsPath = ''/home/me/ws/sub''\<rparr>\<rparr>)
     \<lparr>selectedIds = [], lastUsed = None\<rparr>
   = ([ShowInformationMessage ''Successfully generated. Location: /home/me/ws/sub''
         [''Open'', ''Add to Workspace'']],
      Resolved (), \<lparr>selectedIds = [], lastUsed = None\<rparr>)
   \<and> runSteps_open
     (exampleWorld\<lparr>rootPath := Some ''/home/me/ws'',
        workspaceFolders := Some [\<lparr>uri = Some \<lparr>fsPath = ''/home/me/ws''\<rparr>\<rparr>],
        openMethodChoice := Resolved (Some ''Add to Workspace'')\<rparr>)
     exampleAnswers
     \<lparr>selectedIds = [], lastUsed = None\<rparr>
   = ([ShowInformationMessage ''Successfully generated. Location: /b''
         [''Open'', ''Add to Workspace''],
       UpdateWorkspaceFolders 1 \<lparr>fsPath = ''/b/demo''\<rparr>],
      Resolved (), \<lparr>selectedIds = [], lastUsed = None\<rparr>)
   \<and> runSteps_open
     (exampleWorld\<lparr>workspaceFolders := Some [\<lparr>uri = Some \<lparr>fsPath = ''/b/demo''\<rparr>\<rparr>,
                                             \<lparr>uri = Some \<lparr>fsPath = ''/c''\<rparr>\<rparr>],
        openMethodChoice := Resolved (Some ''Add to Workspace'')\<rparr>)
     exampleAnswers
     \<lparr>selectedIds = [], lastUsed = None\<rparr>
   = ([ShowInformationMessage ''Successfully generated. Location: /b''
         [''Open'', ''Add to Workspace''],
       UpdateWorkspaceFolders 2 \<lparr>fsPath = ''/b/demo''\<rparr>],
      Resolved (), \<lparr>selectedIds = [], lastUsed = None\<rparr>)"
  using
    C8_add_to_workspace_containment [where
      w = "exampleWorld\<lparr>rootPath := Some ''/home/me/ws'',
        workspaceFolders := Some [\<lparr>uri = Some \<lparr>fsPath = ''/home/me/ws''\<rparr>\<rparr>],
        openMethodChoice := Resolved (Some ''Add to Workspace'')\<rparr>"
      and this = "exampleAnswers\<lparr>outputUri := \<lparr>fsPath = ''/home/me/ws/sub''\<rparr>\<rparr>"
      and dm = "\<lparr>selectedIds = [], lastUsed = None\<rparr>"
      and dm' = "\<lparr>selectedIds = [], lastUsed = None\<rparr>"
      and es = "[ShowInformationMessage ''Successfully generated. Location: /home/me/ws/sub''
         [''Open'', ''Add to Workspace'']]"]
    C8_add_to_workspace_containment [where
      w = "exampleWorld\<lparr>rootPath := Some ''/home/me/ws'',
        workspaceFolders := Some [\<lparr>uri = Some \<lparr>fsPath = ''/home/me/ws''\<rparr>\<rparr>],
        openMethodChoice := Resolved (Some ''Add to Workspace'')\<rparr>"
      and this = exampleAnswers
      and dm = "\<lparr>selectedIds = [], lastUsed = None\<rparr>"
      and dm' = "\<lparr>selectedIds = [], lastUsed = None\<rparr>"
      and es = "[ShowInformationMessage ''Successfully generated. Location: /b''
         [''Open'', ''Add to Workspace'']]"]
    C8_add_to_workspace_containment [where
      w = "exampleWorld\<lparr>workspaceFolders := Some [\<lparr>uri = Some \<lparr>fsPath = ''/b/demo''\<rparr>\<rparr>,
                                             \<lparr>uri = Some \<lparr>fsPath = ''/c''\<rparr>\<rparr>],
        openMethodChoice := Resolved (Some ''Add to Workspace'')\<rparr>"
      and this = exampleAnswers
      and dm = "\<lparr>selectedIds = [], lastUsed = None\<rparr>"
      and dm' = "\<lparr>selectedIds = [], lastUsed = None\<rparr>"
      and es = "[ShowInformationMessage ''Successfully generated. Location: /b''
         [''Open'', ''Add to Workspace'']]"]
  by (simp add: exampleWorld_def exampleAnswers_def specifyOpenMethod_def existingRoots_def
        OPEN_IN_CURRENT_WORKSPACE_def OPEN_IN_NEW_WORKSPACE_def startsWith_def)

text \<open>C8 as stated speaks of the new project's path. With the folder \<^verbatim>\<open>/b/demo\<close>
  open as a workspace folder, the target folder \<^verbatim>\<open>/b\<close> and the artifact id \<^verbatim>\<open>demo\<close>, the
  new project's path \<^verbatim>\<open>/b/demo\<close> starts with an existing root, and
  \<^verbatim>\<open>updateWorkspaceFolders\<close> is called all the same: \<^verbatim>\<open>/b\<close> starts with no root.\<close>

theorem C8_project_path_counterexample:
  "''/b/demo'' \<in> set (existingRoots
       (exampleWorld\<lparr>workspaceFolders := Some [\<lparr>uri = Some \<lparr>fsPath = ''/b/demo''\<rparr>\<rparr>],
          openMethodChoice := Resolved (Some ''Add to Workspace'')\<rparr>))
   \<and> startsWith
       (pathJoin exampleWorld (fsPath (outputUri exampleAnswers)) (artifactId exampleAnswers))
       ''/b/demo''
   \<and> runSteps_open
       (exampleWorld\<lparr>workspaceFolders := Some [\<lparr>uri = Some \<lparr>fsPath = ''/b/demo''\<rparr>\<rparr>],
          openMethodChoice := Resolved (Some ''Add to Workspace'')\<rparr>)
       exampleAnswers
       \<lparr>selectedIds = [], lastUsed = None\<rparr>
     = ([ShowInformationMessage ''Successfully generated. Location: /b''
           [''Open'', ''Add to Workspace''],
         UpdateWorkspaceFolders 1 \<lparr>fsPath = ''/b/demo''\<rparr>],
        Resolved (), \<lparr>selectedIds = [], lastUsed = None\<rparr>)"
  by (simp add: exampleWorld_def exampleAnswers_def runSteps_open_def specifyOpenMethod_def
        existingRoots_def OPEN_IN_CURRENT_WORKSPACE_def OPEN_IN_NEW_WORKSPACE_def
        startsWith_def Let_def)

text \<open>C10. When the configured default open method is "Add to Workspace" and no folder
  is open (neither a root path nor a list of workspace folders), the method is used
  without a prompt, and the add-to-workspace branch reads \<^verbatim>\<open>find\<close> of the undefined list
  of workspace folders: after the project has been generated and the last used
  dependencies have been updated, \<^verbatim>\<open>runSteps\<close> is rejected with a \<^verbatim>\<open>TypeError\<close>.\<close>

theorem C10_add_to_workspace_without_folder:
  assumes "getConfiguration w ''defaultOpenProjectMethod'' = Some OPEN_IN_CURRENT_WORKSPACE"
    and "rootPath w = None" and "workspaceFolders w = None"
  shows "specifyOpenMethod w False projectLocation dm
           = ([], Resolved (Some OPEN_IN_CURRENT_WORKSPACE), dm)
       \<and> runSteps_open w this dm = ([], Rejected (TypeError ''find''), dm)
       \<and> (runSteps_answers w pt defaults dm = (esA, Resolved this, dmA) \<and>
          downloadAndUnzip w (downloadUrl this) (fsPath (outputUri this)) dmA
            = (esD, Resolved (), dmD) \<longrightarrow>
          runSteps w pt defaults dm
            = (esA @ Step ''DownloadUnzip'' # esD
                 @ [UpdateLastUsedDependencies (dependencies this)],
               Rejected (TypeError ''find''),
               dmD\<lparr>lastUsed := Some (dependencies this)\<rparr>))"
proof -
  have ne: "OPEN_IN_CURRENT_WORKSPACE \<noteq> OPEN_IN_NEW_WORKSPACE"
    by (simp add: OPEN_IN_CURRENT_WORKSPACE_def OPEN_IN_NEW_WORKSPACE_def)
  have 1: "specifyOpenMethod w False loc dm' = ([], Resolved (Some OPEN_IN_CURRENT_WORKSPACE), dm')"
    for loc dm'
    using assms(1) by (simp add: specifyOpenMethod_def)
  have 2: "runSteps_open w this dm' = ([], Rejected (TypeError ''find''), dm')" for dm'
    using assms(2,3) ne by (simp add: runSteps_open_def Let_def 1)
  have 3: "runSteps w pt defaults dm
            = (esA @ Step ''DownloadUnzip'' # esD
                 @ [UpdateLastUsedDependencies (dependencies this)],
               Rejected (TypeError ''find''),
               dmD\<lparr>lastUsed := Some (dependencies this)\<rparr>)"
    if "runSteps_answers w pt defaults dm = (esA, Resolved this, dmA)"
      and "downloadAndUnzip w (downloadUrl this) (fsPath (outputUri this)) dmA
            = (esD, Resolved (), dmD)"
    using that
    by (simp add: runSteps_def instrumentOperationStep_def updateLastUsedDependencies_def 2
          await_apply)
  from 1 2 3 show ?thesis by blast
qed

theorem C10_add_to_workspace_without_folder_witness:
  "runSteps
     (exampleWorld\<lparr>getConfiguration :=
        (\<lambda>k. if k = ''defaultOpenProjectMethod'' then Some ''Add to Workspace'' else None)\<rparr>)
     MavenProject noDefaults \<lparr>selectedIds = [], lastUsed = None\<rparr>
   = ([Step ''serviceUrl'',
       NewServiceManager ''https://start.spring.io'',
       Step ''Language'',
       Call (ShowQuickPick ''Specify project language.''),
       Step ''GroupId'',
       Call (GetFromInputBox ''Input Group Id for your project.'' None),
       Step ''ArtifactId'',
       Call (GetFromInputBox ''Input Artifact Id for your project.'' None),
       Step ''Packaging'',
       Call (ShowQuickPick ''Specify packaging type.''),
       Step ''BootVersion'',
       Call GetBootVersions,
       Call (ShowQuickPick ''Specify Spring Boot version.''),
       SendInfo [(''bootVersion'', ''2.7.0'')],
       Step ''Dependencies'',
       Call (SetSelectedIds []),
       Call (GetQuickPickItems ''2.7.0'' []),
       Call (ShowQuickPick ''Search for dependencies.''),
       SendInfo [(''depsType'', ''confirm''), (''dependencies'', [])],
       Step ''TargetFolder'',
       Call (OpenDialogForFolder ''Generate into this folder''),
       Call (PathExists ''/b/demo''),
       Step ''DownloadUnzip'',
       Report ''Downloading zip package...'',
       DownloadFile
        ''https://start.spring.io/starter.zip?type=maven-project&language=java&groupId=com.example&artifactId=demo&packaging=jar&bootVersion=2.7.0&baseDir=demo&dependencies='',
       Report ''Starting to unzip...'',
       ExtractZip ''/tmp/starter.zip'' ''/b'',
       UpdateLastUsedDependencies \<lparr>itemType = ''confirm'', id' = []\<rparr>],
      Rejected (TypeError ''find''),
      \<lparr>selectedIds = [], lastUsed = Some \<lparr>itemType = ''confirm'', id' = []\<rparr>\<rparr>)"
  using C10_add_to_workspace_without_folder [where
      w = "exampleWorld\<lparr>getConfiguration :=
        (\<lambda>k. if k = ''defaultOpenProjectMethod'' then Some ''Add to Workspace'' else None)\<rparr>"
      and this = exampleAnswers and pt = MavenProject and defaults = noDefaults
      and dm = "\<lparr>selectedIds = [], lastUsed = None\<rparr>" and dmA = "\<lparr>selectedIds = [], lastUsed = None\<rparr>" and dmD = "\<lparr>selectedIds = [], lastUsed = None\<rparr>"
      and esA = "[Step ''serviceUrl'',
       NewServiceManager ''https://start.spring.io'',
       Step ''Language'',
       Call (ShowQuickPick ''Specify project language.''),
       Step ''GroupId'',
       Call (GetFromInputBox ''Input Group Id for your project.'' None),
       Step ''ArtifactId'',
       Call (GetFromInputBox ''Input Artifact Id for your project.'' None),
       Step ''Packaging'',
       Call (ShowQuickPick ''Specify packaging type.''),
       Step ''BootVersion'',
       Call GetBootVersions,
       Call (ShowQuickPick ''Specify Spring Boot version.''),
       SendInfo [(''bootVersion'', ''2.7.0'')],
       Step ''Dependencies'',
       Call (SetSelectedIds []),
       Call (GetQuickPickItems ''2.7.0'' []),
       Call (ShowQuickPick ''Search for dependencies.''),
       SendInfo [(''depsType'', ''confirm''), (''dependencies'', [])],
       Step ''TargetFolder'',
       Call (OpenDialogForFolder ''Generate into this folder''),
       Call (PathExists ''/b/demo'')]"
      and esD = "[Report ''Downloading zip package...'',
       DownloadFile
        ''https://start.spring.io/starter.zip?type=maven-project&language=java&groupId=com.example&artifactId=demo&packaging=jar&bootVersion=2.7.0&baseDir=demo&dependencies='',
       Report ''Starting to unzip...'',
       ExtractZip ''/tmp/starter.zip'' ''/b'']"]
  by (simp add: exampleWorld_def noDefaults_def exampleAnswers_def runSteps_answers_def
        specifyServiceUrl_def specifyLanguage_def specifyGroupId_def specifyArtifactId_def
        specifyPackaging_def specifyBootVersion_def specifyDependencies_def
        specifyTargetFolder_def openDialogForFolder_def pickedItem_def orElse_def
        andThen_def truthy_def await_apply calls_apply instrumentOperationStep_apply
        LABEL_CHOOSE_FOLDER_def downloadAndUnzip_def downloadUrl_def downloadUrl_params_def
        OPEN_IN_CURRENT_WORKSPACE_def)

subsection \<open>Cancellation\<close>

text \<open>C1. The steps run in the order service URL, language, group id, artifact id,
  packaging, boot version, dependencies, target folder. When a step yields no value
  after the steps before it have yielded theirs, \<^verbatim>\<open>runSteps\<close> is rejected with an
  \<^verbatim>\<open>OperationCanceledError\<close> that carries the message of that step, and the trace ends
  with the calls of that step: no later step, no download, no extraction and no update
  of the last used dependencies. Seven steps yield no value by resolving to
  \<^verbatim>\<open>undefined\<close>, which \<^verbatim>\<open>runSteps\<close> checks; the dependencies step yields no value when
  its quick pick resolves to no item, and then raises the error itself (lines 200-202),
  which \<^verbatim>\<open>runSteps\<close> passes on.\<close>

theorem C1_cancellation_stops_the_run:
  "(specifyServiceUrl w dm = (cU, Resolved None, dm) \<longrightarrow>
      runSteps w pt defaults dm =
        (stepTrace ''serviceUrl'' cU,
         Rejected (OperationCanceledError ''Service URL not specified.''), dm))
   \<and> (specifyServiceUrl w dm = (cU, Resolved (Some url), dm) \<and>
      specifyLanguage w defaults dm = (cL, Resolved None, dm) \<longrightarrow>
      runSteps w pt defaults dm =
        (stepTrace ''serviceUrl'' cU @ [NewServiceManager url] @ stepTrace ''Language'' cL,
         Rejected (OperationCanceledError ''Language not specified.''), dm))
   \<and> (specifyServiceUrl w dm = (cU, Resolved (Some url), dm) \<and>
      specifyLanguage w defaults dm = (cL, Resolved (Some l), dm) \<and>
      specifyGroupId w defaults dm = (cG, Resolved None, dm) \<longrightarrow>
      runSteps w pt defaults dm =
        (stepTrace ''serviceUrl'' cU @ [NewServiceManager url] @ stepTrace ''Language'' cL
           @ stepTrace ''GroupId'' cG,
         Rejected (OperationCanceledError ''GroupId not specified.''), dm))
   \<and> (specifyServiceUrl w dm = (cU, Resolved (Some url), dm) \<and>
      specifyLanguage w defaults dm = (cL, Resolved (Some l), dm) \<and>
      specifyGroupId w defaults dm = (cG, Resolved (Some g), dm) \<and>
      specifyArtifactId w defaults dm = (cA, Resolved None, dm) \<longrightarrow>
      runSteps w pt defaults dm =
        (stepTrace ''serviceUrl'' cU @ [NewServiceManager url] @ stepTrace ''Language'' cL
           @ stepTrace ''GroupId'' cG @ stepTrace ''ArtifactId'' cA,
         Rejected (OperationCanceledError ''ArtifactId not specified.''), dm))
   \<and> (specifyServiceUrl w dm = (cU, Resolved (Some url), dm) \<and>
      specifyLanguage w defaults dm = (cL, Resolved (Some l), dm) \<and>
      specifyGroupId w defaults dm = (cG, Resolved (Some g), dm) \<and>
      specifyArtifactId w defaults dm = (cA, Resolved (Some a), dm) \<and>
      specifyPackaging w defaults dm = (cP, Resolved None, dm) \<longrightarrow>
      runSteps w pt defaults dm =
        (stepTrace ''serviceUrl'' cU @ [NewServiceManager url] @ stepTrace ''Language'' cL
           @ stepTrace ''GroupId'' cG @ stepTrace ''ArtifactId'' cA @ stepTrace ''Packaging'' cP,
         Rejected (OperationCanceledError ''Packaging not specified.''), dm))
   \<and> (specifyServiceUrl w dm = (cU, Resolved (Some url), dm) \<and>
      specifyLanguage w defaults dm = (cL, Resolved (Some l), dm) \<and>
      specifyGroupId w defaults dm = (cG, Resolved (Some g), dm) \<and>
      specifyArtifactId w defaults dm = (cA, Resolved (Some a), dm) \<and>
      specifyPackaging w defaults dm = (cP, Resolved (Some p), dm) \<and>
      specifyBootVersion w dm = (cB, Resolved None, dm) \<longrightarrow>
      runSteps w pt defaults dm =
        (stepTrace ''serviceUrl'' cU @ [NewServiceManager url] @ stepTrace ''Language'' cL
           @ stepTrace ''GroupId'' cG @ stepTrace ''ArtifactId'' cA @ stepTrace ''Packaging'' cP
           @ stepTrace ''BootVersion'' cB,
         Rejected (OperationCanceledError ''BootVersion not specified.''), dm))
   \<and> (specifyServiceUrl w dm = (cU, Resolved (Some url), dm) \<and>
      specifyLanguage w defaults dm = (cL, Resolved (Some l), dm) \<and>
      specifyGroupId w defaults dm = (cG, Resolved (Some g), dm) \<and>
      specifyArtifactId w defaults dm = (cA, Resolved (Some a), dm) \<and>
      specifyPackaging w defaults dm = (cP, Resolved (Some p), dm) \<and>
      specifyBootVersion w dm = (cB, Resolved (Some bv), dm) \<and>
      dependenciesLoop bv (case default_dependencies defaults of None \<Rightarrow> [] | Some ds \<Rightarrow> ds)
        (dependencyPicks w) dm = (cD, Resolved None, dmD) \<longrightarrow>
      runSteps w pt defaults dm =
        (stepTrace ''serviceUrl'' cU @ [NewServiceManager url] @ stepTrace ''Language'' cL
           @ stepTrace ''GroupId'' cG @ stepTrace ''ArtifactId'' cA @ stepTrace ''Packaging'' cP
           @ stepTrace ''BootVersion'' cB @ [SendInfo [(''bootVersion'', bv)]]
           @ stepTrace ''Dependencies'' cD,
         Rejected (OperationCanceledError ''Canceled on dependency seletion.''), dmD))
   \<and> (specifyServiceUrl w dm = (cU, Resolved (Some url), dm) \<and>
      specifyLanguage w defaults dm = (cL, Resolved (Some l), dm) \<and>
      specifyGroupId w defaults dm = (cG, Resolved (Some g), dm) \<and>
      specifyArtifactId w defaults dm = (cA, Resolved (Some a), dm) \<and>
      specifyPackaging w defaults dm = (cP, Resolved (Some p), dm) \<and>
      specifyBootVersion w dm = (cB, Resolved (Some bv), dm) \<and>
      specifyDependencies w bv defaults dm = (cD, Resolved d, dmD) \<and>
      specifyTargetFolder w defaults a dmD = (cT, Resolved None, dmD) \<longrightarrow>
      runSteps w pt defaults dm =
        (stepTrace ''serviceUrl'' cU @ [NewServiceManager url] @ stepTrace ''Language'' cL
           @ stepTrace ''GroupId'' cG @ stepTrace ''ArtifactId'' cA @ stepTrace ''Packaging'' cP
           @ stepTrace ''BootVersion'' cB @ [SendInfo [(''bootVersion'', bv)]]
           @ stepTrace ''Dependencies'' cD
           @ [SendInfo [(''depsType'', itemType d), (''dependencies'', id' d)]]
           @ stepTrace ''TargetFolder'' cT,
         Rejected (OperationCanceledError ''Target folder not specified.''), dmD))"
proof (intro conjI impI; (elim conjE)?)
  note run = runSteps_def runSteps_answers_def await_apply calls_apply
    instrumentOperationStep_apply stepTrace_def
  {
    assume "specifyServiceUrl w dm = (cU, Resolved None, dm)"
    then show "runSteps w pt defaults dm =
        (stepTrace ''serviceUrl'' cU,
         Rejected (OperationCanceledError ''Service URL not specified.''), dm)"
      by (simp add: run)
  next
    assume "specifyServiceUrl w dm = (cU, Resolved (Some url), dm)"
      "specifyLanguage w defaults dm = (cL, Resolved None, dm)"
    then show "runSteps w pt defaults dm =
        (stepTrace ''serviceUrl'' cU @ [NewServiceManager url] @ stepTrace ''Language'' cL,
         Rejected (OperationCanceledError ''Language not specified.''), dm)"
      by (simp add: run)
  next
    assume "specifyServiceUrl w dm = (cU, Resolved (Some url), dm)"
      "specifyLanguage w defaults dm = (cL, Resolved (Some l), dm)"
      "specifyGroupId w defaults dm = (cG, Resolved None, dm)"
    then show "runSteps w pt defaults dm =
        (stepTrace ''serviceUrl'' cU @ [NewServiceManager url] @ stepTrace ''Language'' cL
           @ stepTrace ''GroupId'' cG,
         Rejected (OperationCanceledError ''GroupId not specified.''), dm)"
      by (simp add: run)
  next
    assume "specifyServiceUrl w dm = (cU, Resolved (Some url), dm)"
      "specifyLanguage w defaults dm = (cL, Resolved (Some l), dm)"
      "specifyGroupId w defaults dm = (cG, Resolved (Some g), dm)"
      "specifyArtifactId w defaults dm = (cA, Resolved None, dm)"
    then show "runSteps w pt defaults dm =
        (stepTrace ''serviceUrl'' cU @ [NewServiceManager url] @ stepTrace ''Language'' cL
           @ stepTrace ''GroupId'' cG @ stepTrace ''ArtifactId'' cA,
         Rejected (OperationCanceledError ''ArtifactId not specified.''), dm)"
      by (simp add: run)
  next
    assume "specifyServiceUrl w dm = (cU, Resolved (Some url), dm)"
      "specifyLanguage w defaults dm = (cL, Resolved (Some l), dm)"
      "specifyGroupId w defaults dm = (cG, Resolved (Some g), dm)"
      "specifyArtifactId w defaults dm = (cA, Resolved (Some a), dm)"
      "specifyPackaging w defaults dm = (cP, Resolved None, dm)"
    then show "runSteps w pt defaults dm =
        (stepTrace ''serviceUrl'' cU @ [NewServiceManager url] @ stepTrace ''Language'' cL
           @ stepTrace ''GroupId'' cG @ stepTrace ''ArtifactId'' cA @ stepTrace ''Packaging'' cP,
         Rejected (OperationCanceledError ''Packaging not specified.''), dm)"
      by (simp add: run)
  next
    assume "specifyServiceUrl w dm = (cU, Resolved (Some url), dm)"
      "specifyLanguage w defaults dm = (cL, Resolved (Some l), dm)"
      "specifyGroupId w defaults dm = (cG, Resolved (Some g), dm)"
      "specifyArtifactId w defaults dm = (cA, Resolved (Some a), dm)"
      "specifyPackaging w defaults dm = (cP, Resolved (Some p), dm)"
      "specifyBootVersion w dm = (cB, Resolved None, dm)"
    then show "runSteps w pt defaults dm =
        (stepTrace ''serviceUrl'' cU @ [NewServiceManager url] @ stepTrace ''Language'' cL
           @ stepTrace ''GroupId'' cG @ stepTrace ''ArtifactId'' cA @ stepTrace ''Packaging'' cP
           @ stepTrace ''BootVersion'' cB,
         Rejected (OperationCanceledError ''BootVersion not specified.''), dm)"
      by (simp add: run)
  next
    assume "specifyServiceUrl w dm = (cU, Resolved (Some url), dm)"
      "specifyLanguage w defaults dm = (cL, Resolved (Some l), dm)"
      "specifyGroupId w defaults dm = (cG, Resolved (Some g), dm)"
      "specifyArtifactId w defaults dm = (cA, Resolved (Some a), dm)"
      "specifyPackaging w defaults dm = (cP, Resolved (Some p), dm)"
      "specifyBootVersion w dm = (cB, Resolved (Some bv), dm)"
      "dependenciesLoop bv (case default_dependencies defaults of None \<Rightarrow> [] | Some ds \<Rightarrow> ds)
        (dependencyPicks w) dm = (cD, Resolved None, dmD)"
    then show "runSteps w pt defaults dm =
        (stepTrace ''serviceUrl'' cU @ [NewServiceManager url] @ stepTrace ''Language'' cL
           @ stepTrace ''GroupId'' cG @ stepTrace ''ArtifactId'' cA @ stepTrace ''Packaging'' cP
           @ stepTrace ''BootVersion'' cB @ [SendInfo [(''bootVersion'', bv)]]
           @ stepTrace ''Dependencies'' cD,
         Rejected (OperationCanceledError ''Canceled on dependency seletion.''), dmD)"
      by (simp add: run specifyDependencies_def)
  next
    assume "specifyServiceUrl w dm = (cU, Resolved (Some url), dm)"
      "specifyLanguage w defaults dm = (cL, Resolved (Some l), dm)"
      "specifyGroupId w defaults dm = (cG, Resolved (Some g), dm)"
      "specifyArtifactId w defaults dm = (cA, Resolved (Some a), dm)"
      "specifyPackaging w defaults dm = (cP, Resolved (Some p), dm)"
      "specifyBootVersion w dm = (cB, Resolved (Some bv), dm)"
      "specifyDependencies w bv defaults dm = (cD, Resolved d, dmD)"
      "specifyTargetFolder w defaults a dmD = (cT, Resolved None, dmD)"
    then show "runSteps w pt defaults dm =
        (stepTrace ''serviceUrl'' cU @ [NewServiceManager url] @ stepTrace ''Language'' cL
           @ stepTrace ''GroupId'' cG @ stepTrace ''ArtifactId'' cA @ stepTrace ''Packaging'' cP
           @ stepTrace ''BootVersion'' cB @ [SendInfo [(''bootVersion'', bv)]]
           @ stepTrace ''Dependencies'' cD
           @ [SendInfo [(''depsType'', itemType d), (''dependencies'', id' d)]]
           @ stepTrace ''TargetFolder'' cT,
         Rejected (OperationCanceledError ''Target folder not specified.''), dmD)"
      by (simp add: run)
  }
qed

theorem C1_cancellation_stops_the_run_witness:
  "runSteps (exampleWorld\<lparr>serviceUrlAnswer := Resolved None\<rparr>) MavenProject noDefaults
       \<lparr>selectedIds = [], lastUsed = None\<rparr>
     = ([Step ''serviceUrl''],
        Rejected (OperationCanceledError ''Service URL not specified.''),
        \<lparr>selectedIds = [], lastUsed = None\<rparr>)
   \<and> runSteps (exampleWorld\<lparr>languagePick := Resolved None\<rparr>) MavenProject noDefaults
       \<lparr>selectedIds = [], lastUsed = None\<rparr>
     = ([Step ''serviceUrl'',
         NewServiceManager ''https://start.spring.io'',
         Step ''Language'', Call (ShowQuickPick ''Specify project language.'')],
        Rejected (OperationCanceledError ''Language not specified.''),
        \<lparr>selectedIds = [], lastUsed = None\<rparr>)
   \<and> runSteps (exampleWorld\<lparr>groupIdInput := Resolved None\<rparr>) MavenProject noDefaults
       \<lparr>selectedIds = [], lastUsed = None\<rparr>
     = ([Step ''serviceUrl'',
         NewServiceManager ''https://start.spring.io'',
         Step ''Language'', Call (ShowQuickPick ''Specify project language.''),
         Step ''GroupId'', Call (GetFromInputBox ''Input Group Id for your project.'' None)],
        Rejected (OperationCanceledError ''GroupId not specified.''),
        \<lparr>selectedIds = [], lastUsed = None\<rparr>)
   \<and> runSteps (exampleWorld\<lparr>artifactIdInput := Resolved None\<rparr>) MavenProject noDefaults
       \<lparr>selectedIds = [], lastUsed = None\<rparr>
     = ([Step ''serviceUrl'',
         NewServiceManager ''https://start.spring.io'',
         Step ''Language'', Call (ShowQuickPick ''Specify project language.''),
         Step ''GroupId'', Call (GetFromInputBox ''Input Group Id for your project.'' None),
         Step ''ArtifactId'', Call (GetFromInputBox ''Input Artifact Id for your project.'' None)],
        Rejected (OperationCanceledError ''ArtifactId not specified.''),
        \<lparr>selectedIds = [], lastUsed = None\<rparr>)
   \<and> runSteps (exampleWorld\<lparr>packagingPick := Resolved None\<rparr>) MavenProject noDefaults
       \<lparr>selectedIds = [], lastUsed = None\<rparr>
     = ([Step ''serviceUrl'',
         NewServiceManager ''https://start.spring.io'',
         Step ''Language'', Call (ShowQuickPick ''Specify project language.''),
         Step ''GroupId'', Call (GetFromInputBox ''Input Group Id for your project.'' None),
         Step ''ArtifactId'', Call (GetFromInputBox ''Input Artifact Id for your project.'' None),
         Step ''Packaging'', Call (ShowQuickPick ''Specify packaging type.'')],
        Rejected (OperationCanceledError ''Packaging not specified.''),
        \<lparr>selectedIds = [], lastUsed = None\<rparr>)
   \<and> runSteps (exampleWorld\<lparr>bootVersionPick := Resolved None\<rparr>) MavenProject noDefaults
       \<lparr>selectedIds = [], lastUsed = None\<rparr>
     = ([Step ''serviceUrl'',
         NewServiceManager ''https://start.spring.io'',
         Step ''Language'', Call (ShowQuickPick ''Specify project language.''),
         Step ''GroupId'', Call (GetFromInputBox ''Input Group Id for your project.'' None),
         Step ''ArtifactId'', Call (GetFromInputBox ''Input Artifact Id for your project.'' None),
         Step ''Packaging'', Call (ShowQuickPick ''Specify packaging type.''),
         Step ''BootVersion'', Call GetBootVersions, Call (ShowQuickPick ''Specify Spring Boot version.'')],
        Rejected (OperationCanceledError ''BootVersion not specified.''),
        \<lparr>selectedIds = [], lastUsed = None\<rparr>)
   \<and> runSteps (exampleWorld\<lparr>dependencyPicks := [Resolved Dismiss]\<rparr>) MavenProject noDefaults
       \<lparr>selectedIds = [], lastUsed = None\<rparr>
     = ([Step ''serviceUrl'',
         NewServiceManager ''https://start.spring.io'',
         Step ''Language'', Call (ShowQuickPick ''Specify project language.''),
         Step ''GroupId'', Call (GetFromInputBox ''Input Group Id for your project.'' None),
         Step ''ArtifactId'', Call (GetFromInputBox ''Input Artifact Id for your project.'' None),
         Step ''Packaging'', Call (ShowQuickPick ''Specify packaging type.''),
         Step ''BootVersion'', Call GetBootVersions, Call (ShowQuickPick ''Specify Spring Boot version.''),
         SendInfo [(''bootVersion'', ''2.7.0'')],
         Step ''Dependencies'', Call (SetSelectedIds []), Call (GetQuickPickItems ''2.7.0'' []),
          Call (ShowQuickPick ''Search for dependencies.'')],
        Rejected (OperationCanceledError ''Canceled on dependency seletion.''),
        \<lparr>selectedIds = [], lastUsed = None\<rparr>)
   \<and> runSteps (exampleWorld\<lparr>folderDialogs := [Resolved None]\<rparr>) MavenProject noDefaults
       \<lparr>selectedIds = [], lastUsed = None\<rparr>
     = ([Step ''serviceUrl'',
         NewServiceManager ''https://start.spring.io'',
         Step ''Language'', Call (ShowQuickPick ''Specify project language.''),
         Step ''GroupId'', Call (GetFromInputBox ''Input Group Id for your project.'' None),
         Step ''ArtifactId'', Call (GetFromInputBox ''Input Artifact Id for your project.'' None),
         Step ''Packaging'', Call (ShowQuickPick ''Specify packaging type.''),
         Step ''BootVersion'', Call GetBootVersions, Call (ShowQuickPick ''Specify Spring Boot version.''),
         SendInfo [(''bootVersion'', ''2.7.0'')],
         Step ''Dependencies'', Call (SetSelectedIds []), Call (GetQuickPickItems ''2.7.0'' []),
          Call (ShowQuickPick ''Search for dependencies.''),
         SendInfo [(''depsType'', ''confirm''), (''dependencies'', [])],
         Step ''TargetFolder'', Call (OpenDialogForFolder ''Generate into this folder'')],
        Rejected (OperationCanceledError ''Target folder not specified.''),
        \<lparr>selectedIds = [], lastUsed = None\<rparr>)"
  using
    C1_cancellation_stops_the_run [where w = "exampleWorld\<lparr>serviceUrlAnswer := Resolved None\<rparr>"
      and dm = "\<lparr>selectedIds = [], lastUsed = None\<rparr>"
      and pt = MavenProject
      and defaults = noDefaults
      and cU = "[]"]
    C1_cancellation_stops_the_run [where w = "exampleWorld\<lparr>languagePick := Resolved None\<rparr>"
      and dm = "\<lparr>selectedIds = [], lastUsed = None\<rparr>"
      and pt = MavenProject
      and defaults = noDefaults
      and cU = "[]"
      and cL = "[ShowQuickPick ''Specify project language.'']"
      and url = "''https://start.spring.io''"]
    C1_cancellation_stops_the_run [where w = "exampleWorld\<lparr>groupIdInput := Resolved None\<rparr>"
      and dm = "\<lparr>selectedIds = [], lastUsed = None\<rparr>"
      and pt = MavenProject
      and defaults = noDefaults
      and cU = "[]"
      and cL = "[ShowQuickPick ''Specify project language.'']"
      and cG = "[GetFromInputBox ''Input Group Id for your project.'' None]"
      and url = "''https://start.spring.io''"
      and l = "''java''"]
    C1_cancellation_stops_the_run [where w = "exampleWorld\<lparr>artifactIdInput := Resolved None\<rparr>"
      and dm = "\<lparr>selectedIds = [], lastUsed = None\<rparr>"
      and pt = MavenProject
      and defaults = noDefaults
      and cU = "[]"
      and cL = "[ShowQuickPick ''Specify project language.'']"
      and cG = "[GetFromInputBox ''Input Group Id for your project.'' None]"
      and cA = "[GetFromInputBox ''Input Artifact Id for your project.'' None]"
      and url = "''https://start.spring.io''"
      and l = "''java''"
      and g = "''com.example''"]
    C1_cancellation_stops_the_run [where w = "exampleWorld\<lparr>packagingPick := Resolved None\<rparr>"
      and dm = "\<lparr>selectedIds = [], lastUsed = None\<rparr>"
      and pt = MavenProject
      and defaults = noDefaults
      and cU = "[]"
      and cL = "[ShowQuickPick ''Specify project language.'']"
      and cG = "[GetFromInputBox ''Input Group Id for your project.'' None]"
      and cA = "[GetFromInputBox ''Input Artifact Id for your project.'' None]"
      and cP = "[ShowQuickPick ''Specify packaging type.'']"
      and url = "''https://start.spring.io''"
      and l = "''java''"
      and g = "''com.example''"
      and a = "''demo''"]
    C1_cancellation_stops_the_run [where w = "exampleWorld\<lparr>bootVersionPick := Resolved None\<rparr>"
      and dm = "\<lparr>selectedIds = [], lastUsed = None\<rparr>"
      and pt = MavenProject
      and defaults = noDefaults
      and cU = "[]"
      and cL = "[ShowQuickPick ''Specify project language.'']"
      and cG = "[GetFromInputBox ''Input Group Id for your project.'' None]"
      and cA = "[GetFromInputBox ''Input Artifact Id for your project.'' None]"
      and cP = "[ShowQuickPick ''Specify packaging type.'']"
      and cB = "[GetBootVersions, ShowQuickPick ''Specify Spring Boot version.'']"
      and url = "''https://start.spring.io''"
      and l = "''java''"
      and g = "''com.example''"
      and a = "''demo''"
      and p = "''jar''"]
    C1_cancellation_stops_the_run [where w = "exampleWorld\<lparr>dependencyPicks := [Resolved Dismiss]\<rparr>"
      and dm = "\<lparr>selectedIds = [], lastUsed = None\<rparr>"
      and pt = MavenProject
      and defaults = noDefaults
      and cU = "[]"
      and cL = "[ShowQuickPick ''Specify project language.'']"
      and cG = "[GetFromInputBox ''Input Group Id for your project.'' None]"
      and cA = "[GetFromInputBox ''Input Artifact Id for your project.'' None]"
      and cP = "[ShowQuickPick ''Specify packaging type.'']"
      and cB = "[GetBootVersions, ShowQuickPick ''Specify Spring Boot version.'']"
      and cD = "[SetSelectedIds [], GetQuickPickItems ''2.7.0'' [],
          ShowQuickPick ''Search for dependencies.'']"
      and url = "''https://start.spring.io''"
      and l = "''java''"
      and g = "''com.example''"
      and a = "''demo''"
      and p = "''jar''"
      and bv = "''2.7.0''"
      and dmD = "\<lparr>selectedIds = [], lastUsed = None\<rparr>"]
    C1_cancellation_stops_the_run [where w = "exampleWorld\<lparr>folderDialogs := [Resolved None]\<rparr>"
      and dm = "\<lparr>selectedIds = [], lastUsed = None\<rparr>"
      and pt = MavenProject
      and defaults = noDefaults
      and cU = "[]"
      and cL = "[ShowQuickPick ''Specify project language.'']"
      and cG = "[GetFromInputBox ''Input Group Id for your project.'' None]"
      and cA = "[GetFromInputBox ''Input Artifact Id for your project.'' None]"
      and cP = "[ShowQuickPick ''Specify packaging type.'']"
      and cB = "[GetBootVersions, ShowQuickPick ''Specify Spring Boot version.'']"
      and cD = "[SetSelectedIds [], GetQuickPickItems ''2.7.0'' [],
          ShowQuickPick ''Search for dependencies.'']"
      and cT = "[OpenDialogForFolder ''Generate into this folder'']"
      and url = "''https://start.spring.io''"
      and l = "''java''"
      and g = "''com.example''"
      and a = "''demo''"
      and p = "''jar''"
      and bv = "''2.7.0''"
      and dmD = "\<lparr>selectedIds = [], lastUsed = None\<rparr>"
      and d = "\<lparr>itemType = ''confirm'', id' = []\<rparr>"]
  by (simp add: exampleWorld_def noDefaults_def stepTrace_def specifyServiceUrl_def
        specifyLanguage_def specifyGroupId_def specifyArtifactId_def specifyPackaging_def
        specifyBootVersion_def specifyDependencies_def specifyTargetFolder_def
        openDialogForFolder_def pickedItem_def orElse_def andThen_def truthy_def
        await_apply LABEL_CHOOSE_FOLDER_def)

subsection \<open>The last used dependencies\<close>

lemma lastUsedUpdates_simps [simp]:
  "lastUsedUpdates [] = []"
  "lastUsedUpdates (xs @ ys) = lastUsedUpdates xs @ lastUsedUpdates ys"
  "lastUsedUpdates (map Call cs) = []"
  "lastUsedUpdates (Step n # xs) = lastUsedUpdates xs"
  "lastUsedUpdates (Call c # xs) = lastUsedUpdates xs"
  "lastUsedUpdates (NewServiceManager u # xs) = lastUsedUpdates xs"
  "lastUsedUpdates (SendInfo i # xs) = lastUsedUpdates xs"
  "lastUsedUpdates (Report r # xs) = lastUsedUpdates xs"
  "lastUsedUpdates (DownloadFile u # xs) = lastUsedUpdates xs"
  "lastUsedUpdates (ExtractZip f d # xs) = lastUsedUpdates xs"
  "lastUsedUpdates (ShowInformationMessage m cs' # xs) = lastUsedUpdates xs"
  "lastUsedUpdates (ExecuteCommand c' u' b # xs) = lastUsedUpdates xs"
  "lastUsedUpdates (UpdateWorkspaceFolders k u' # xs) = lastUsedUpdates xs"
  "lastUsedUpdates (UpdateLastUsedDependencies v # xs) = v # lastUsedUpdates xs"
  by (simp_all add: lastUsedUpdates_def)

lemma quiet_resolve: "quiet (resolve v)"
  by (simp add: quiet_def)

lemma quiet_throw: "quiet (throw e)"
  by (simp add: quiet_def)

lemma quiet_called: "lastUsedUpdates es = [] \<Longrightarrow> quiet (called es p)"
  by (simp add: quiet_def)

lemma quiet_await: "quiet m \<Longrightarrow> (\<And>v. quiet (f v)) \<Longrightarrow> quiet (await m f)"
  unfolding quiet_def
proof (intro allI)
  fix dm
  assume m: "\<forall>dm. lastUsedUpdates (fst (m dm)) = [] \<and> lastUsed (snd (snd (m dm))) = lastUsed dm"
    and f: "\<And>v. \<forall>dm. lastUsedUpdates (fst (f v dm)) = []
                     \<and> lastUsed (snd (snd (f v dm))) = lastUsed dm"
  obtain es r dm1 where r: "m dm = (es, r, dm1)"
    by (cases "m dm") auto
  with m [rule_format, of dm] have 1: "lastUsedUpdates es = []" "lastUsed dm1 = lastUsed dm"
    by simp_all
  show "lastUsedUpdates (fst (await m f dm)) = []
        \<and> lastUsed (snd (snd (await m f dm))) = lastUsed dm"
  proof (cases r)
    case (Resolved v)
    with r 1 f [of v, rule_format, of dm1] show ?thesis
      by simp
  next
    case (Rejected e)
    with r 1 show ?thesis by (simp add: await_apply)
  next
    case Pending
    with r 1 show ?thesis by (simp add: await_apply)
  qed
qed

lemma quiet_step: "quiet m \<Longrightarrow> quiet (instrumentOperationStep name m)"
  by (simp add: quiet_def instrumentOperationStep_apply split: prod.splits)
     (metis fst_conv snd_conv)

lemma quiet_calls: "keeps m \<Longrightarrow> quiet (calls m)"
  by (simp add: quiet_def keeps_def calls_apply split: prod.splits)
     (metis snd_conv)

lemma quiet_case_option:
  "quiet a \<Longrightarrow> (\<And>x. quiet (b x)) \<Longrightarrow> quiet (case r of None \<Rightarrow> a | Some x \<Rightarrow> b x)"
  by (cases r) simp_all

lemma keeps_resolve: "keeps (resolve v)"
  by (simp add: keeps_def)

lemma keeps_throw: "keeps (throw e)"
  by (simp add: keeps_def)

lemma keeps_called: "keeps (called es p)"
  by (simp add: keeps_def)

lemma keeps_await: "keeps m \<Longrightarrow> (\<And>v. keeps (f v)) \<Longrightarrow> keeps (await m f)"
  unfolding keeps_def
proof (intro allI)
  fix dm
  assume m: "\<forall>dm. lastUsed (snd (snd (m dm))) = lastUsed dm"
    and f: "\<And>v. \<forall>dm. lastUsed (snd (snd (f v dm))) = lastUsed dm"
  obtain es r dm1 where r: "m dm = (es, r, dm1)"
    by (cases "m dm") auto
  with m [rule_format, of dm] have 1: "lastUsed dm1 = lastUsed dm"
    by simp
  show "lastUsed (snd (snd (await m f dm))) = lastUsed dm"
  proof (cases r)
    case (Resolved v)
    with r 1 f [of v, rule_format, of dm1] show ?thesis
      by simp
  next
    case (Rejected e)
    with r 1 show ?thesis by (simp add: await_apply)
  next
    case Pending
    with r 1 show ?thesis by (simp add: await_apply)
  qed
qed

lemma keeps_case_option:
  "keeps a \<Longrightarrow> (\<And>x. keeps (b x)) \<Longrightarrow> keeps (case r of None \<Rightarrow> a | Some x \<Rightarrow> b x)"
  by (cases r) simp_all

lemma keeps_if: "keeps a \<Longrightarrow> keeps b \<Longrightarrow> keeps (if c then a else b)"
  by simp

lemma keeps_specifyServiceUrl: "keeps (specifyServiceUrl w)"
  by (simp add: specifyServiceUrl_def keeps_called)

lemma keeps_specifyLanguage: "keeps (specifyLanguage w defaults)"
  unfolding specifyLanguage_def Let_def
  by (intro keeps_await keeps_if keeps_called keeps_resolve)

lemma keeps_specifyGroupId: "keeps (specifyGroupId w defaults)"
  by (simp add: specifyGroupId_def keeps_called)

lemma keeps_specifyArtifactId: "keeps (specifyArtifactId w defaults)"
  by (simp add: specifyArtifactId_def keeps_called)

lemma keeps_specifyPackaging: "keeps (specifyPackaging w defaults)"
  unfolding specifyPackaging_def Let_def
  by (intro keeps_await keeps_if keeps_called keeps_resolve)

lemma keeps_specifyBootVersion: "keeps (specifyBootVersion w)"
  unfolding specifyBootVersion_def
  by (intro keeps_await keeps_called keeps_resolve)

lemma dependenciesLoop_lastUsed:
  "lastUsed (snd (snd (dependenciesLoop bv ds ps dm))) = lastUsed dm"
proof (induction ps arbitrary: dm)
  case Nil
  show ?case by simp
next
  case (Cons p ps)
  show ?case
    by (simp add: Cons.IH toggleDependency_def Let_def
          split: promise.splits option.splits prod.splits)
       (metis Cons.IH DependencyManager.select_convs(2) DependencyManager.surjective
          DependencyManager.update_convs(1) snd_conv)
qed


lemma keeps_specifyDependencies: "keeps (specifyDependencies w bv defaults)"
  unfolding specifyDependencies_def
  by (intro keeps_await keeps_case_option keeps_throw keeps_resolve)
     (simp add: keeps_def dependenciesLoop_lastUsed)

lemma keeps_openDialogForFolder: "keeps (openDialogForFolder fs)"
  unfolding openDialogForFolder_def
  by (cases fs) (simp_all add: keeps_called keeps_await keeps_resolve)

lemma keeps_specifyTargetFolder: "keeps (specifyTargetFolder w defaults projectName)"
  unfolding specifyTargetFolder_def
  by (intro keeps_await keeps_case_option keeps_if keeps_resolve keeps_openDialogForFolder)
     (simp add: keeps_def split: prod.splits)

lemmas keeps_steps = keeps_specifyServiceUrl keeps_specifyLanguage keeps_specifyGroupId
  keeps_specifyArtifactId keeps_specifyPackaging keeps_specifyBootVersion
  keeps_specifyDependencies keeps_specifyTargetFolder

lemma quiet_runSteps_answers: "quiet (runSteps_answers w pt defaults)"
  unfolding runSteps_answers_def
  by (intro quiet_await quiet_step quiet_calls quiet_case_option quiet_throw quiet_resolve
        quiet_called keeps_steps) simp_all

lemma quiet_downloadAndUnzip: "quiet (downloadAndUnzip w targetUrl targetFolder)"
  unfolding downloadAndUnzip_def
  by (intro quiet_await quiet_case_option quiet_throw quiet_resolve quiet_called) simp_all

lemma quiet_specifyOpenMethod: "quiet (specifyOpenMethod w hasOpenFolder projectLocation)"
  by (simp add: specifyOpenMethod_def Let_def quiet_called quiet_resolve)

lemma quiet_runSteps_open: "quiet (runSteps_open w this)"
  unfolding runSteps_open_def Let_def
  by (intro quiet_await quiet_specifyOpenMethod)
     (simp add: quiet_called quiet_resolve quiet_throw split: option.splits)

text \<open>C6. \<^verbatim>\<open>updateLastUsedDependencies\<close> is called, and the last used dependencies
  change, in exactly those runs in which every step yielded its value and the download
  and the extraction completed; the call then follows the events of the download and the
  extraction. In every other run (a step cancelled or failed, the download or the
  extraction failed) there is no such call and the last used dependencies are the ones
  from before the run.\<close>

theorem C6_last_used_updated_after_unzip:
  "lastUsedUpdates (fst (runSteps w pt defaults dm))
     = (case downloadedAndUnzipped w pt defaults dm of
          None \<Rightarrow> []
        | Some this \<Rightarrow> [dependencies this])
   \<and> lastUsed (snd (snd (runSteps w pt defaults dm)))
     = (case downloadedAndUnzipped w pt defaults dm of
          None \<Rightarrow> lastUsed dm
        | Some this \<Rightarrow> Some (dependencies this))
   \<and> (runSteps_answers w pt defaults dm = (esA, Resolved this, dmA) \<and>
      downloadAndUnzip w (downloadUrl this) (fsPath (outputUri this)) dmA
        = (esD, Resolved (), dmD) \<longrightarrow>
      (\<exists>esO. fst (runSteps w pt defaults dm)
               = esA @ Step ''DownloadUnzip'' # esD
                   @ UpdateLastUsedDependencies (dependencies this) # esO))"
proof -
  have ordered: "runSteps_answers w pt defaults dm = (esA, Resolved this, dmA) \<and>
      downloadAndUnzip w (downloadUrl this) (fsPath (outputUri this)) dmA
        = (esD, Resolved (), dmD) \<longrightarrow>
      (\<exists>esO. fst (runSteps w pt defaults dm)
               = esA @ Step ''DownloadUnzip'' # esD
                   @ UpdateLastUsedDependencies (dependencies this) # esO)"
    by (auto simp add: runSteps_def instrumentOperationStep_apply await_apply
          updateLastUsedDependencies_def split: prod.splits promise.splits)
  have "lastUsedUpdates (fst (runSteps w pt defaults dm))
     = (case downloadedAndUnzipped w pt defaults dm of
          None \<Rightarrow> []
        | Some this \<Rightarrow> [dependencies this])
   \<and> lastUsed (snd (snd (runSteps w pt defaults dm)))
     = (case downloadedAndUnzipped w pt defaults dm of
          None \<Rightarrow> lastUsed dm
        | Some this \<Rightarrow> Some (dependencies this))"
  proof -
  obtain es r dm1 where A: "runSteps_answers w pt defaults dm = (es, r, dm1)"
    by (cases "runSteps_answers w pt defaults dm") auto
  from quiet_runSteps_answers [of w pt defaults] A
  have qA: "lastUsedUpdates es = []" "lastUsed dm1 = lastUsed dm"
    unfolding quiet_def by (metis fst_conv, metis snd_conv)
  show ?thesis
  proof (cases r)
    case (Rejected e)
    with A qA show ?thesis
      by (simp add: runSteps_def downloadedAndUnzipped_def)
  next
    case Pending
    with A qA show ?thesis
      by (simp add: runSteps_def downloadedAndUnzipped_def)
  next
    case (Resolved h)
    obtain es' r' dm2 where D:
      "downloadAndUnzip w (downloadUrl h) (fsPath (outputUri h)) dm1 = (es', r', dm2)"
      by (cases "downloadAndUnzip w (downloadUrl h) (fsPath (outputUri h)) dm1") auto
    from quiet_downloadAndUnzip [of w "downloadUrl h" "fsPath (outputUri h)"] D
    have qD: "lastUsedUpdates es' = []" "lastUsed dm2 = lastUsed dm1"
      unfolding quiet_def by (metis fst_conv, metis snd_conv)
    show ?thesis
    proof (cases r')
      case (Rejected e)
      with A Resolved D qA qD show ?thesis
        by (simp add: runSteps_def downloadedAndUnzipped_def instrumentOperationStep_apply
              await_apply)
    next
      case Pending
      with A Resolved D qA qD show ?thesis
        by (simp add: runSteps_def downloadedAndUnzipped_def instrumentOperationStep_apply
              await_apply)
    next
      case (Resolved u)
      obtain es'' r'' dm3 where O:
        "runSteps_open w h (dm2\<lparr>lastUsed := Some (dependencies h)\<rparr>) = (es'', r'', dm3)"
        by (cases "runSteps_open w h (dm2\<lparr>lastUsed := Some (dependencies h)\<rparr>)") auto
      from quiet_runSteps_open [of w h] O
      have qO: "lastUsedUpdates es'' = []" "lastUsed dm3 = Some (dependencies h)"
        unfolding quiet_def by (metis fst_conv, metis DependencyManager.select_convs(2)
          DependencyManager.surjective DependencyManager.update_convs(2) snd_conv)
      from A \<open>r = Resolved h\<close> D Resolved O qA qD qO show ?thesis
        by (simp add: runSteps_def downloadedAndUnzipped_def instrumentOperationStep_apply
              await_apply updateLastUsedDependencies_def)
    qed
  qed
  qed
  with ordered show ?thesis by blast
qed

theorem C6_last_used_updated_after_unzip_witness:
  "downloadedAndUnzipped exampleWorld MavenProject noDefaults \<lparr>selectedIds = [], lastUsed = None\<rparr>
     = Some exampleAnswers
   \<and> runSteps exampleWorld MavenProject noDefaults \<lparr>selectedIds = [], lastUsed = None\<rparr>
     = ([Step ''serviceUrl'',
         NewServiceManager ''https://start.spring.io'',
         Step ''Language'',
         Call (ShowQuickPick ''Specify project language.''),
         Step ''GroupId'',
         Call (GetFromInputBox ''Input Group Id for your project.'' None),
         Step ''ArtifactId'',
         Call (GetFromInputBox ''Input Artifact Id for your project.'' None),
         Step ''Packaging'',
         Call (ShowQuickPick ''Specify packaging type.''),
         Step ''BootVersion'',
         Call GetBootVersions,
         Call (ShowQuickPick ''Specify Spring Boot version.''),
         SendInfo [(''bootVersion'', ''2.7.0'')],
         Step ''Dependencies'',
         Call (SetSelectedIds []),
         Call (GetQuickPickItems ''2.7.0'' []),
         Call (ShowQuickPick ''Search for dependencies.''),
         SendInfo [(''depsType'', ''confirm''), (''dependencies'', [])],
         Step ''TargetFolder'',
         Call (OpenDialogForFolder ''Generate into this folder''),
         Call (PathExists ''/b/demo''),
         Step ''DownloadUnzip'',
         Report ''Downloading zip package...'',
         DownloadFile
        ''https://start.spring.io/starter.zip?type=maven-project&language=java&groupId=com.example&artifactId=demo&packaging=jar&bootVersion=2.7.0&baseDir=demo&dependencies='',
         Report ''Starting to unzip...'',
         ExtractZip ''/tmp/starter.zip'' ''/b'',
         UpdateLastUsedDependencies \<lparr>itemType = ''confirm'', id' = []\<rparr>,
         ShowInformationMessage ''Successfully generated. Location: /b'' [''Open''],
         ExecuteCommand ''vscode.openFolder'' \<lparr>fsPath = ''/b/demo''\<rparr> False],
        Resolved (),
        \<lparr>selectedIds = [], lastUsed = Some \<lparr>itemType = ''confirm'', id' = []\<rparr>\<rparr>)
   \<and> downloadedAndUnzipped
       (exampleWorld\<lparr>extractZip := (\<lambda>f d. Some (HostError ''invalid zip''))\<rparr>)
       MavenProject noDefaults
       \<lparr>selectedIds = [], lastUsed = Some \<lparr>itemType = ''confirm'', id' = ''web''\<rparr>\<rparr>
     = None
   \<and> runSteps
       (exampleWorld\<lparr>extractZip := (\<lambda>f d. Some (HostError ''invalid zip''))\<rparr>)
       MavenProject noDefaults
       \<lparr>selectedIds = [], lastUsed = Some \<lparr>itemType = ''confirm'', id' = ''web''\<rparr>\<rparr>
     = ([Step ''serviceUrl'',
         NewServiceManager ''https://start.spring.io'',
         Step ''Language'',
         Call (ShowQuickPick ''Specify project language.''),
         Step ''GroupId'',
         Call (GetFromInputBox ''Input Group Id for your project.'' None),
         Step ''ArtifactId'',
         Call (GetFromInputBox ''Input Artifact Id for your project.'' None),
         Step ''Packaging'',
         Call (ShowQuickPick ''Specify packaging type.''),
         Step ''BootVersion'',
         Call GetBootVersions,
         Call (ShowQuickPick ''Specify Spring Boot version.''),
         SendInfo [(''bootVersion'', ''2.7.0'')],
         Step ''Dependencies'',
         Call (SetSelectedIds []),
         Call (GetQuickPickItems ''2.7.0'' []),
         Call (ShowQuickPick ''Search for dependencies.''),
         SendInfo [(''depsType'', ''confirm''), (''dependencies'', [])],
         Step ''TargetFolder'',
         Call (OpenDialogForFolder ''Generate into this folder''),
         Call (PathExists ''/b/demo''),
         Step ''DownloadUnzip'',
         Report ''Downloading zip package...'',
         DownloadFile
        ''https://start.spring.io/starter.zip?type=maven-project&language=java&groupId=com.example&artifactId=demo&packaging=jar&bootVersion=2.7.0&baseDir=demo&dependencies='',
         Report ''Starting to unzip...'',
         ExtractZip ''/tmp/starter.zip'' ''/b''],
        Rejected (HostError ''invalid zip''),
        \<lparr>selectedIds = [], lastUsed = Some \<lparr>itemType = ''confirm'', id' = ''web''\<rparr>\<rparr>)"
  using
    C6_last_used_updated_after_unzip [where w = exampleWorld and pt = MavenProject
      and defaults = noDefaults and this = exampleAnswers
      and dm = "\<lparr>selectedIds = [], lastUsed = None\<rparr>" and dmA = "\<lparr>selectedIds = [], lastUsed = None\<rparr>" and dmD = "\<lparr>selectedIds = [], lastUsed = None\<rparr>"
      and esA = "[Step ''serviceUrl'',
         NewServiceManager ''https://start.spring.io'',
         Step ''Language'',
         Call (ShowQuickPick ''Specify project language.''),
         Step ''GroupId'',
         Call (GetFromInputBox ''Input Group Id for your project.'' None),
         Step ''ArtifactId'',
         Call (GetFromInputBox ''Input Artifact Id for your project.'' None),
         Step ''Packaging'',
         Call (ShowQuickPick ''Specify packaging type.''),
         Step ''BootVersion'',
         Call GetBootVersions,
         Call (ShowQuickPick ''Specify Spring Boot version.''),
         SendInfo [(''bootVersion'', ''2.7.0'')],
         Step ''Dependencies'',
         Call (SetSelectedIds []),
         Call (GetQuickPickItems ''2.7.0'' []),
         Call (ShowQuickPick ''Search for dependencies.''),
         SendInfo [(''depsType'', ''confirm''), (''dependencies'', [])],
         Step ''TargetFolder'',
         Call (OpenDialogForFolder ''Generate into this folder''),
         Call (PathExists ''/b/demo'')]"
      and esD = "[Report ''Downloading zip package...'',
         DownloadFile
        ''https://start.spring.io/starter.zip?type=maven-project&language=java&groupId=com.example&artifactId=demo&packaging=jar&bootVersion=2.7.0&baseDir=demo&dependencies='',
         Report ''Starting to unzip...'',
         ExtractZip ''/tmp/starter.zip'' ''/b'']"]
    C6_last_used_updated_after_unzip [where
      w = "exampleWorld\<lparr>extractZip := (\<lambda>f d. Some (HostError ''invalid zip''))\<rparr>"
      and pt = MavenProject and defaults = noDefaults
      and dm = "\<lparr>selectedIds = [], lastUsed = Some \<lparr>itemType = ''confirm'', id' = ''web''\<rparr>\<rparr>"]
  by (simp add: exampleWorld_def noDefaults_def exampleAnswers_def runSteps_def
        runSteps_answers_def runSteps_open_def downloadedAndUnzipped_def
        specifyServiceUrl_def specifyLanguage_def specifyGroupId_def specifyArtifactId_def
        specifyPackaging_def specifyBootVersion_def specifyDependencies_def
        specifyTargetFolder_def specifyOpenMethod_def openDialogForFolder_def pickedItem_def
        orElse_def andThen_def truthy_def await_apply calls_apply
        instrumentOperationStep_apply updateLastUsedDependencies_def
        LABEL_CHOOSE_FOLDER_def downloadAndUnzip_def downloadUrl_def downloadUrl_params_def
        OPEN_IN_CURRENT_WORKSPACE_def OPEN_IN_NEW_WORKSPACE_def Let_def)

end
